theory Spec2Isabelle
  imports Complex_Main
begin

section \<open>JavaScript values\<close>

text \<open>
  The server is TypeScript; at run time its parameters, requests and patches are plain
  JavaScript values. A value is a JSON tree extended with \<open>undefined\<close> and with a
  \<open>Buffer\<close> of raw bytes. Numbers are rationals (every finite double is one). A string
  is a sequence of UTF-16 code units: \<open>JStr s\<close> is a string all of whose code units are
  below 256, written with 8-bit characters, and \<open>JWide us\<close> is a string given by its
  code units, the form of every other string. An object is the list of its
  own properties in insertion order, so that ``the key is absent'' and ``the key is
  present with value undefined'' are different objects, as they are in JavaScript.
\<close>

datatype jsval =
    JUndefined
  | JNull
  | JBool bool
  | JNum rat
  | JStr string
  | JWide "nat list"
  | JArr "jsval list"
  | JObj "(string \<times> jsval) list"
  | JBuffer string

text \<open>\<open>!!v\<close>: the falsy values are undefined, null, false, 0 and the empty string.\<close>

fun truthy :: "jsval \<Rightarrow> bool" where
  "truthy JUndefined = False"
| "truthy JNull = False"
| "truthy (JBool b) = b"
| "truthy (JNum n) = (n \<noteq> 0)"
| "truthy (JStr s) = (s \<noteq> [])"
| "truthy (JWide us) = (us \<noteq> [])"
| "truthy (JArr xs) = True"
| "truthy (JObj kvs) = True"
| "truthy (JBuffer bs) = True"

text \<open>The code units of a string, of either form.\<close>

fun code_units :: "jsval \<Rightarrow> nat list option" where
  "code_units (JStr s) = Some (map of_char s)"
| "code_units (JWide us) = Some us"
| "code_units v = None"

text \<open>
  \<open>o.k\<close>: reading a property that the object does not have gives undefined. The
  handlers only read properties of their parameter object and of backend responses.
\<close>

fun get_prop :: "jsval \<Rightarrow> string \<Rightarrow> jsval" where
  "get_prop (JObj kvs) k = (case map_of kvs k of Some v \<Rightarrow> v | None \<Rightarrow> JUndefined)"
| "get_prop v k = JUndefined"

text \<open>\<open>k in o\<close>: the object has the key, whatever its value.\<close>

fun has_key :: "jsval \<Rightarrow> string \<Rightarrow> bool" where
  "has_key (JObj kvs) k = (k \<in> set (map fst kvs))"
| "has_key v k = False"

text \<open>
  \<open>o.k = v\<close>: an existing key keeps its position, a new key is appended.
\<close>

fun assign :: "(string \<times> jsval) list \<Rightarrow> string \<Rightarrow> jsval \<Rightarrow> (string \<times> jsval) list" where
  "assign [] k v = [(k, v)]"
| "assign ((k', v') # kvs) k v = (if k' = k then (k, v) # kvs else (k', v') # assign kvs k v)"

section \<open>The validation schemas\<close>

text \<open>
  The schemas of the tools are written with the zod combinators. \<open>zschema\<close> is the part of
  that language the repository uses; \<open>.describe(...)\<close> only attaches documentation and
  is dropped. \<open>ZLazy\<close> is \<open>z.lazy(() => ...)\<close>, whose only use is the recursive
  reference to the metafield schema.
\<close>

datatype zschema =
    ZString
  | ZNumber "rat option" "rat option"
  | ZBoolean
  | ZEnum "string list"
  | ZUnknown
  | ZArray zschema
  | ZRecordUnknown
  | ZObject "(string \<times> zschema) list"
  | ZOptional zschema
  | ZDefault zschema jsval
  | ZLazy

datatype path_elem = Key string | Index nat

datatype zod_issue =
    invalid_type "path_elem list" string string
  | invalid_enum_value "path_elem list" "string list" jsval
  | too_small "path_elem list" rat
  | too_big "path_elem list" rat

text \<open>The type name zod reports for a value that has the wrong type.\<close>

fun getParsedType :: "jsval \<Rightarrow> string" where
  "getParsedType JUndefined = ''undefined''"
| "getParsedType JNull = ''null''"
| "getParsedType (JBool b) = ''boolean''"
| "getParsedType (JNum n) = ''number''"
| "getParsedType (JStr s) = ''string''"
| "getParsedType (JWide us) = ''string''"
| "getParsedType (JArr xs) = ''array''"
| "getParsedType (JObj kvs) = ''object''"
| "getParsedType (JBuffer bs) = ''object''"

text \<open>
  The metafield schema of the object-type tools: an object with three required and five
  optional fields, whose \<open>children\<close> are again metafields.
\<close>

definition metafieldTypes :: "string list" where
  "metafieldTypes =
    [''text'', ''textarea'', ''html-textarea'', ''markdown'', ''number'', ''date'', ''switch'',
     ''select-dropdown'', ''radio-buttons'', ''check-boxes'', ''file'', ''object'', ''objects'',
     ''repeater'', ''parent'']"

definition metafieldObject :: zschema where
  "metafieldObject = ZObject
    [(''key'', ZString),
     (''title'', ZString),
     (''type'', ZEnum metafieldTypes),
     (''required'', ZOptional ZBoolean),
     (''value'', ZOptional ZUnknown),
     (''options'', ZOptional (ZArray (ZObject [(''key'', ZString), (''value'', ZString)]))),
     (''children'', ZOptional (ZArray ZLazy)),
     (''object_type'', ZOptional ZString)]"

definition metafieldSchema :: zschema where
  "metafieldSchema = ZLazy"

text \<open>
  Parsing collects the issues of every field and element; it succeeds when there is none.
  An object schema keeps its own keys only, and a key whose parsed value is undefined
  stays in the result only if the input had it. A key \<open>__proto__\<close> is never copied
  into a parsed object or record. A wide string is compared with the
  options of an enum by its code units.
\<close>

fun collect :: "(zod_issue list + 'a) list \<Rightarrow> zod_issue list + 'a list" where
  "collect [] = Inr []"
| "collect (r # rs) =
     (case (r, collect rs) of
        (Inl is, Inl js) \<Rightarrow> Inl (is @ js)
      | (Inl is, Inr _) \<Rightarrow> Inl is
      | (Inr _, Inl js) \<Rightarrow> Inl js
      | (Inr x, Inr xs) \<Rightarrow> Inr (x # xs))"

definition number_checks :: "rat option \<Rightarrow> rat option \<Rightarrow> path_elem list \<Rightarrow> rat \<Rightarrow> zod_issue list" where
  "number_checks lo hi p n =
     (case lo of Some a \<Rightarrow> if n < a then [too_small p a] else [] | None \<Rightarrow> []) @
     (case hi of Some b \<Rightarrow> if b < n then [too_big p b] else [] | None \<Rightarrow> [])"

definition kept :: "(string \<times> bool \<times> jsval) list \<Rightarrow> (string \<times> jsval) list" where
  "kept fields = map (\<lambda>(k, present, v). (k, v))
     (filter (\<lambda>(k, present, v). k \<noteq> ''__proto__'' \<and> (v \<noteq> JUndefined \<or> present)) fields)"

text \<open>How zod prints the values an enum expects: each in single quotes, joined by a bar.\<close>

fun joinValues :: "string list \<Rightarrow> string" where
  "joinValues [] = []"
| "joinValues [x] = [CHR 0x27] @ x @ [CHR 0x27]"
| "joinValues (x # y # ys) = [CHR 0x27] @ x @ [CHR 0x27] @ '' | '' @ joinValues (y # ys)"

text \<open>
  Two measures for the termination of parsing: the size of the default values a schema
  can substitute for the input, and the number of wrappers around the schema proper.
\<close>

fun default_size :: "zschema \<Rightarrow> nat" where
  "default_size (ZArray s) = default_size s"
| "default_size (ZObject shape) = sum_list (map (\<lambda>(k, s). default_size s) shape)"
| "default_size (ZOptional s) = default_size s"
| "default_size (ZDefault s d) = Suc (size d + default_size s)"
| "default_size s = 0"

fun wrappers :: "zschema \<Rightarrow> nat" where
  "wrappers (ZOptional s) = Suc (wrappers s)"
| "wrappers (ZDefault s d) = Suc (wrappers s)"
| "wrappers ZLazy = Suc 0"
| "wrappers s = 0"

function zparse :: "zschema \<Rightarrow> path_elem list \<Rightarrow> jsval \<Rightarrow> zod_issue list + jsval" where
  "zparse ZString p v =
     (case v of
        JStr s \<Rightarrow> Inr v
      | JWide us \<Rightarrow> Inr v
      | _ \<Rightarrow> Inl [invalid_type p ''string'' (getParsedType v)])"
| "zparse (ZNumber lo hi) p v =
     (case v of
        JNum n \<Rightarrow> (if number_checks lo hi p n = [] then Inr v else Inl (number_checks lo hi p n))
      | _ \<Rightarrow> Inl [invalid_type p ''number'' (getParsedType v)])"
| "zparse ZBoolean p v =
     (case v of JBool b \<Rightarrow> Inr v | _ \<Rightarrow> Inl [invalid_type p ''boolean'' (getParsedType v)])"
| "zparse (ZEnum options) p v =
     (case v of
        JStr s \<Rightarrow> (if s \<in> set options then Inr v else Inl [invalid_enum_value p options v])
      | JWide us \<Rightarrow>
          (if us \<in> set (map (map of_char) options) then Inr v
           else Inl [invalid_enum_value p options v])
      | _ \<Rightarrow> Inl [invalid_type p (joinValues options) (getParsedType v)])"
| "zparse ZUnknown p v = Inr v"
| "zparse (ZArray s) p v =
     (case v of
        JArr xs \<Rightarrow>
          (case collect (map (\<lambda>(i, x). zparse s (p @ [Index i]) x) (enumerate 0 xs)) of
             Inl issues \<Rightarrow> Inl issues
           | Inr ys \<Rightarrow> Inr (JArr ys))
      | _ \<Rightarrow> Inl [invalid_type p ''array'' (getParsedType v)])"
| "zparse ZRecordUnknown p v =
     (case v of
        JObj kvs \<Rightarrow> Inr (JObj (filter (\<lambda>(k, x). k \<noteq> ''__proto__'') kvs))
      | _ \<Rightarrow> Inl [invalid_type p ''object'' (getParsedType v)])"
| "zparse (ZObject shape) p v =
     (case v of
        JObj kvs \<Rightarrow>
          (case collect (map (\<lambda>(k, s).
                   (case zparse s (p @ [Key k]) (get_prop (JObj kvs) k) of
                      Inl issues \<Rightarrow> Inl issues
                    | Inr y \<Rightarrow> Inr (k, has_key (JObj kvs) k, y))) shape) of
             Inl issues \<Rightarrow> Inl issues
           | Inr fields \<Rightarrow> Inr (JObj (kept fields)))
      | _ \<Rightarrow> Inl [invalid_type p ''object'' (getParsedType v)])"
| "zparse (ZOptional s) p v = (if v = JUndefined then Inr JUndefined else zparse s p v)"
| "zparse (ZDefault s d) p v = zparse s p (if v = JUndefined then d else v)"
| "zparse ZLazy p v = zparse metafieldObject p v"
  by pat_completeness auto


termination zparse
proof -
  have lookup: "size v < Suc (size_list (size_prod (\<lambda>x. 0) size) kvs)"
    if "map_of kvs k = Some v" for kvs :: "(string \<times> jsval) list" and k v
    using that by (induction kvs) (auto split: if_splits)
  have field: "size (get_prop (JObj kvs) k) < Suc (size_list (size_prod (\<lambda>x. 0) size) kvs)"
    for kvs k
    by (auto split: option.splits dest: lookup)
  have shape: "default_size s \<le> sum_list (map (\<lambda>(k, s). default_size s) sh)"
    if "(k, s) \<in> set sh" for k s and sh :: "(string \<times> zschema) list"
    using that by (induction sh) auto
  have element: "size x < Suc (size_list size xs)"
    if "(i, x) \<in> set (enumerate n xs)" for i n and x :: jsval and xs
  proof -
    from that have "x \<in> set xs"
      by (auto simp: in_set_enumerate_eq)
    then have "size x \<le> size_list size xs"
      by (rule size_list_estimation') simp
    then show ?thesis by simp
  qed
  show ?thesis
    apply (relation "measures [\<lambda>(s, p, v). size v + default_size s, \<lambda>(s, p, v). wrappers s]")
         apply simp
    subgoal for s p v xs ix i x
      using element [of i x 0 xs] by simp
    subgoal for sh p v kvs ks k s
      using field [of kvs k] shape [of k s sh] by simp
      apply simp
     apply simp
    apply (simp add: metafieldObject_def)
    done
qed

text \<open>
  \<open>schema.parse(data)\<close> returns the parsed value or throws a \<open>ZodError\<close>, an \<open>Error\<close>
  whose message renders the issues.
\<close>

datatype thrown = Error string | NonError jsval

text \<open>\<open>error instanceof Error ? error.message : 'Unknown error'\<close>\<close>

definition error_message :: "thrown \<Rightarrow> string" where
  "error_message error = (case error of Error m \<Rightarrow> m | NonError v \<Rightarrow> ''Unknown error'')"

subsection \<open>Object tools\<close>

definition listObjectsSchema :: zschema where
  "listObjectsSchema = ZObject
    [(''type'', ZOptional ZString),
     (''status'', ZDefault (ZOptional (ZEnum [''published'', ''draft'', ''any''])) (JStr ''any'')),
     (''limit'', ZDefault (ZOptional (ZNumber (Some 1) (Some 100))) (JNum 10)),
     (''skip'', ZDefault (ZOptional (ZNumber (Some 0) None)) (JNum 0)),
     (''props'', ZOptional (ZArray ZString)),
     (''sort'', ZOptional ZString),
     (''depth'', ZOptional (ZNumber (Some 0) (Some 3))),
     (''query'', ZOptional ZRecordUnknown)]"

definition getObjectSchema :: zschema where
  "getObjectSchema = ZObject
    [(''id'', ZOptional ZString),
     (''slug'', ZOptional ZString),
     (''type'', ZOptional ZString),
     (''props'', ZOptional (ZArray ZString)),
     (''status'', ZDefault (ZOptional (ZEnum [''published'', ''draft'', ''any''])) (JStr ''any''))]"

definition createObjectSchema :: zschema where
  "createObjectSchema = ZObject
    [(''title'', ZString),
     (''type'', ZString),
     (''slug'', ZOptional ZString),
     (''content'', ZOptional ZString),
     (''status'', ZDefault (ZOptional (ZEnum [''published'', ''draft''])) (JStr ''draft'')),
     (''metadata'', ZOptional ZRecordUnknown),
     (''locale'', ZOptional ZString)]"

definition updateObjectSchema :: zschema where
  "updateObjectSchema = ZObject
    [(''id'', ZString),
     (''title'', ZOptional ZString),
     (''slug'', ZOptional ZString),
     (''content'', ZOptional ZString),
     (''status'', ZOptional (ZEnum [''published'', ''draft''])),
     (''metadata'', ZOptional ZRecordUnknown)]"

definition deleteObjectSchema :: zschema where
  "deleteObjectSchema = ZObject
    [(''id'', ZString),
     (''trigger_webhook'', ZDefault (ZOptional ZBoolean) (JBool True))]"

subsection \<open>Media tools\<close>

definition listMediaSchema :: zschema where
  "listMediaSchema = ZObject
    [(''folder'', ZOptional ZString),
     (''limit'', ZDefault (ZOptional (ZNumber (Some 1) (Some 100))) (JNum 10)),
     (''skip'', ZDefault (ZOptional (ZNumber (Some 0) None)) (JNum 0)),
     (''props'', ZOptional (ZArray ZString))]"

definition getMediaSchema :: zschema where
  "getMediaSchema = ZObject
    [(''id'', ZString),
     (''props'', ZOptional (ZArray ZString))]"

definition uploadMediaSchema :: zschema where
  "uploadMediaSchema = ZObject
    [(''media'', ZString),
     (''folder'', ZOptional ZString),
     (''metadata'', ZOptional ZRecordUnknown),
     (''trigger_webhook'', ZDefault (ZOptional ZBoolean) (JBool True))]"

definition deleteMediaSchema :: zschema where
  "deleteMediaSchema = ZObject
    [(''id'', ZString),
     (''trigger_webhook'', ZDefault (ZOptional ZBoolean) (JBool True))]"

subsection \<open>Object type tools\<close>

definition listObjectTypesSchema :: zschema where
  "listObjectTypesSchema = ZObject []"

definition getObjectTypeSchema :: zschema where
  "getObjectTypeSchema = ZObject [(''slug'', ZString)]"

definition createObjectTypeSchema :: zschema where
  "createObjectTypeSchema = ZObject
    [(''title'', ZString),
     (''slug'', ZString),
     (''singular'', ZOptional ZString),
     (''metafields'', ZOptional (ZArray metafieldSchema)),
     (''options'', ZOptional (ZObject
        [(''slug_field'', ZOptional ZBoolean),
         (''content_editor'', ZOptional ZBoolean)]))]"

definition updateObjectTypeSchema :: zschema where
  "updateObjectTypeSchema = ZObject
    [(''slug'', ZString),
     (''title'', ZOptional ZString),
     (''singular'', ZOptional ZString),
     (''metafields'', ZOptional (ZArray metafieldSchema)),
     (''options'', ZOptional (ZObject
        [(''slug_field'', ZOptional ZBoolean),
         (''content_editor'', ZOptional ZBoolean)]))]"

definition deleteObjectTypeSchema :: zschema where
  "deleteObjectTypeSchema = ZObject [(''slug'', ZString)]"

subsection \<open>AI tools\<close>

definition generateTextSchema :: zschema where
  "generateTextSchema = ZObject
    [(''prompt'', ZString),
     (''model'', ZOptional ZString),
     (''max_tokens'', ZOptional (ZNumber (Some 1) (Some 100000)))]"

definition generateImageSchema :: zschema where
  "generateImageSchema = ZObject
    [(''prompt'', ZString),
     (''model'', ZOptional ZString),
     (''folder'', ZOptional ZString),
     (''metadata'', ZOptional ZRecordUnknown),
     (''alt_text'', ZOptional ZString)]"

definition generateVideoSchema :: zschema where
  "generateVideoSchema = ZObject
    [(''prompt'', ZString),
     (''model'', ZOptional ZString),
     (''duration'', ZOptional (ZEnum [''4'', ''6'', ''8''])),
     (''resolution'', ZOptional (ZEnum [''720p'', ''1080p''])),
     (''folder'', ZOptional ZString),
     (''metadata'', ZOptional ZRecordUnknown)]"


section \<open>The process, the client and the backend\<close>

text \<open>
  The three settings of the process environment; a variable that is not set is \<open>None\<close>.
\<close>

record process_env =
  COSMIC_BUCKET_SLUG :: "string option"
  COSMIC_READ_KEY :: "string option"
  COSMIC_WRITE_KEY :: "string option"

record CosmicConfig =
  bucketSlug :: string
  readKey :: string
  writeKey :: "string option"

text \<open>
  One operation of the backend client: the collection, the method, its arguments and the
  query refiners chained onto it, in the order of the calls
  (\<open>cosmic.objects.findOne({id}).props(p).status(s)\<close> is
  \<open>Call ''objects'' ''findOne'' [{id}] [(''props'', p), (''status'', s)]\<close>).
\<close>

datatype backend_call = Call string string "jsval list" "(string \<times> jsval) list"

fun chain :: "backend_call \<Rightarrow> string \<Rightarrow> jsval \<Rightarrow> backend_call" where
  "chain (Call collection method args refiners) refiner v =
     Call collection method args (refiners @ [(refiner, v)])"

text \<open>
  What the server runs on and does not define: the JSON printer
  (\<open>JSON.stringify(v, null, 2)\<close>), the rendering of the issues of a \<open>ZodError\<close> as its
  message, \<open>parseInt(v, 10)\<close>, the base64 decoder on a text with a code unit above 255,
  and the backend, which answers an operation issued through a client, after the
  operations issued before it, with a response object or by throwing.
\<close>

record runtime =
  JSON_stringify :: "jsval \<Rightarrow> string"
  ZodError_message :: "zod_issue list \<Rightarrow> string"
  parseInt :: "jsval \<Rightarrow> jsval"
  Buffer_from_wide_base64 :: "nat list \<Rightarrow> string"
  backend :: "CosmicConfig \<Rightarrow> backend_call list \<Rightarrow> backend_call \<Rightarrow> thrown + (string \<times> jsval) list"

text \<open>
  The state of the process: its environment, the memoised client (a client is identified
  with the configuration it was created from) and the operations issued to the backend
  so far.
\<close>

record world =
  env :: process_env
  cosmicClient :: "CosmicConfig option"
  calls :: "backend_call list"

text \<open>
  A computation that may throw runs in a world and returns the thrown value or its
  result, with the world it leaves behind.
\<close>

definition bind :: "(thrown + 'a) \<times> world \<Rightarrow> ('a \<Rightarrow> world \<Rightarrow> (thrown + 'b) \<times> world) \<Rightarrow> (thrown + 'b) \<times> world" where
  "bind m f = (case m of (Inl error, w) \<Rightarrow> (Inl error, w) | (Inr x, w) \<Rightarrow> f x w)"

text \<open>
  \<open>getConfig\<close>: \<open>!bucketSlug\<close> holds for a variable that is unset or empty.
\<close>

definition getConfig :: "process_env \<Rightarrow> thrown + CosmicConfig" where
  "getConfig e =
     (case COSMIC_BUCKET_SLUG e of
        None \<Rightarrow> Inl (Error ''COSMIC_BUCKET_SLUG environment variable is required'')
      | Some slug \<Rightarrow>
          if slug = [] then Inl (Error ''COSMIC_BUCKET_SLUG environment variable is required'')
          else
            (case COSMIC_READ_KEY e of
               None \<Rightarrow> Inl (Error ''COSMIC_READ_KEY environment variable is required'')
             | Some key \<Rightarrow>
                 if key = [] then Inl (Error ''COSMIC_READ_KEY environment variable is required'')
                 else Inr \<lparr>bucketSlug = slug, readKey = key, writeKey = COSMIC_WRITE_KEY e\<rparr>))"

definition getCosmicClient :: "world \<Rightarrow> (thrown + CosmicConfig) \<times> world" where
  "getCosmicClient w =
     (case cosmicClient w of
        Some client \<Rightarrow> (Inr client, w)
      | None \<Rightarrow>
          (case getConfig (env w) of
             Inl error \<Rightarrow> (Inl error, w)
           | Inr config \<Rightarrow> (Inr config, w\<lparr>cosmicClient := Some config\<rparr>)))"

text \<open>\<open>!!process.env.COSMIC_WRITE_KEY\<close>: set and not empty.\<close>

definition hasWriteAccess :: "process_env \<Rightarrow> bool" where
  "hasWriteAccess e = (case COSMIC_WRITE_KEY e of None \<Rightarrow> False | Some key \<Rightarrow> key \<noteq> [])"

definition requireWriteAccess :: "world \<Rightarrow> (thrown + unit) \<times> world" where
  "requireWriteAccess w =
     (if \<not> hasWriteAccess (env w) then
        (Inl (Error ''Write operations require COSMIC_WRITE_KEY environment variable to be set''), w)
      else (Inr (), w))"

definition resetClient :: "world \<Rightarrow> world" where
  "resetClient w = w\<lparr>cosmicClient := None\<rparr>"

text \<open>
  \<open>await request\<close>: the operation is issued through the client and recorded; the backend
  answers with the response object or throws.
\<close>

definition await :: "runtime \<Rightarrow> CosmicConfig \<Rightarrow> backend_call \<Rightarrow> world \<Rightarrow> (thrown + jsval) \<times> world" where
  "await rt cosmic request w =
     (case backend rt cosmic (calls w) request of
        Inl error \<Rightarrow> (Inl error, w\<lparr>calls := calls w @ [request]\<rparr>)
      | Inr response \<Rightarrow> (Inr (JObj response), w\<lparr>calls := calls w @ [request]\<rparr>))"

section \<open>Result envelopes\<close>

text \<open>
  \<open>ToolResult\<close>: the content blocks, each of type \<open>text\<close> and given by its text, and
  the optional error flag.
\<close>

record ToolResult =
  content :: "string list"
  isError :: "bool option"

definition text_result :: "string \<Rightarrow> ToolResult" where
  "text_result t = \<lparr>content = [t], isError = None\<rparr>"

definition error_result :: "string \<Rightarrow> ToolResult" where
  "error_result t = \<lparr>content = [t], isError = Some True\<rparr>"

text \<open>
  \<open>try { body } catch (error) { return error envelope }\<close>, the frame of every handler:
  whatever the body throws becomes an error envelope that starts with the handler's
  label.
\<close>

definition try_catch :: "(thrown + ToolResult) \<times> world \<Rightarrow> string \<Rightarrow> ToolResult \<times> world" where
  "try_catch m label =
     (case m of
        (Inl error, w) \<Rightarrow> (error_result (label @ error_message error), w)
      | (Inr result, w) \<Rightarrow> (result, w))"


section \<open>The handlers\<close>

subsection \<open>Objects\<close>

definition handleListObjects_try :: "runtime \<Rightarrow> jsval \<Rightarrow> world \<Rightarrow> (thrown + ToolResult) \<times> world" where
  "handleListObjects_try rt params w =
     bind (getCosmicClient w) (\<lambda>cosmic w.
       let query = (if truthy (get_prop params ''query'') then get_prop params ''query'' else JObj []);
           query = (if truthy (get_prop params ''type'')
                    then (case query of
                            JObj kvs \<Rightarrow> JObj (assign kvs ''type'' (get_prop params ''type''))
                          | _ \<Rightarrow> query)
                    else query);
           request = Call ''objects'' ''find'' [query] [];
           request = (if truthy (get_prop params ''props'')
                      then chain request ''props'' (get_prop params ''props'') else request);
           request = (if truthy (get_prop params ''limit'')
                      then chain request ''limit'' (get_prop params ''limit'') else request);
           request = (if truthy (get_prop params ''skip'')
                      then chain request ''skip'' (get_prop params ''skip'') else request);
           request = (if truthy (get_prop params ''sort'')
                      then chain request ''sort'' (get_prop params ''sort'') else request);
           request = (if truthy (get_prop params ''status'')
                      then chain request ''status'' (get_prop params ''status'') else request);
           request = (if get_prop params ''depth'' \<noteq> JUndefined
                      then chain request ''depth'' (get_prop params ''depth'') else request)
       in bind (await rt cosmic request w) (\<lambda>response w.
            (Inr (text_result (JSON_stringify rt (JObj
               [(''objects'', get_prop response ''objects''),
                (''total'', get_prop response ''total'')]))), w)))"

definition handleListObjects :: "runtime \<Rightarrow> jsval \<Rightarrow> world \<Rightarrow> ToolResult \<times> world" where
  "handleListObjects rt params w =
     try_catch (handleListObjects_try rt params w) ''Error listing objects: ''"

definition handleGetObject_try :: "runtime \<Rightarrow> jsval \<Rightarrow> world \<Rightarrow> (thrown + ToolResult) \<times> world" where
  "handleGetObject_try rt params w =
     (if \<not> truthy (get_prop params ''id'') \<and> \<not> truthy (get_prop params ''slug'') then
        (Inr (error_result ''Error: Either id or slug must be provided''), w)
      else if truthy (get_prop params ''slug'') \<and> \<not> truthy (get_prop params ''type'') then
        (Inr (error_result ''Error: type is required when using slug to get an object''), w)
      else
        bind (getCosmicClient w) (\<lambda>cosmic w.
          let request =
                (if truthy (get_prop params ''id'') then
                   Call ''objects'' ''findOne'' [JObj [(''id'', get_prop params ''id'')]] []
                 else
                   Call ''objects'' ''findOne''
                     [JObj [(''type'', get_prop params ''type''),
                            (''slug'', get_prop params ''slug'')]] []);
              request = (if truthy (get_prop params ''props'')
                         then chain request ''props'' (get_prop params ''props'') else request);
              request = (if truthy (get_prop params ''status'')
                         then chain request ''status'' (get_prop params ''status'') else request)
          in bind (await rt cosmic request w) (\<lambda>response w.
               (Inr (text_result (JSON_stringify rt (get_prop response ''object''))), w))))"

definition handleGetObject :: "runtime \<Rightarrow> jsval \<Rightarrow> world \<Rightarrow> ToolResult \<times> world" where
  "handleGetObject rt params w =
     try_catch (handleGetObject_try rt params w) ''Error getting object: ''"

definition handleCreateObject_try :: "runtime \<Rightarrow> jsval \<Rightarrow> world \<Rightarrow> (thrown + ToolResult) \<times> world" where
  "handleCreateObject_try rt params w =
     bind (requireWriteAccess w) (\<lambda>_ w.
       bind (getCosmicClient w) (\<lambda>cosmic w.
         bind (await rt cosmic
                 (Call ''objects'' ''insertOne''
                    [JObj [(''title'', get_prop params ''title''),
                           (''type'', get_prop params ''type''),
                           (''slug'', get_prop params ''slug''),
                           (''content'', get_prop params ''content''),
                           (''status'', get_prop params ''status''),
                           (''metadata'', get_prop params ''metadata''),
                           (''locale'', get_prop params ''locale'')]] []) w)
           (\<lambda>response w.
              (Inr (text_result (JSON_stringify rt (JObj
                 [(''message'', JStr ''Object created successfully''),
                  (''object'', get_prop response ''object'')]))), w))))"

definition handleCreateObject :: "runtime \<Rightarrow> jsval \<Rightarrow> world \<Rightarrow> ToolResult \<times> world" where
  "handleCreateObject rt params w =
     try_catch (handleCreateObject_try rt params w) ''Error creating object: ''"

text \<open>
  \<open>if (params.k !== undefined) updates.k = params.k\<close>, one step of building a patch.
\<close>

definition copy_defined :: "jsval \<Rightarrow> string \<Rightarrow> (string \<times> jsval) list \<Rightarrow> (string \<times> jsval) list" where
  "copy_defined params k updates =
     (if get_prop params k \<noteq> JUndefined then assign updates k (get_prop params k) else updates)"

definition handleUpdateObject_try :: "runtime \<Rightarrow> jsval \<Rightarrow> world \<Rightarrow> (thrown + ToolResult) \<times> world" where
  "handleUpdateObject_try rt params w =
     bind (requireWriteAccess w) (\<lambda>_ w.
       bind (getCosmicClient w) (\<lambda>cosmic w.
         let updates = [];
             updates = copy_defined params ''title'' updates;
             updates = copy_defined params ''slug'' updates;
             updates = copy_defined params ''content'' updates;
             updates = copy_defined params ''status'' updates;
             updates = copy_defined params ''metadata'' updates
         in bind (await rt cosmic
                    (Call ''objects'' ''updateOne'' [get_prop params ''id'', JObj updates] []) w)
              (\<lambda>response w.
                 (Inr (text_result (JSON_stringify rt (JObj
                    [(''message'', JStr ''Object updated successfully''),
                     (''object'', get_prop response ''object'')]))), w))))"

definition handleUpdateObject :: "runtime \<Rightarrow> jsval \<Rightarrow> world \<Rightarrow> ToolResult \<times> world" where
  "handleUpdateObject rt params w =
     try_catch (handleUpdateObject_try rt params w) ''Error updating object: ''"

definition handleDeleteObject_try :: "runtime \<Rightarrow> jsval \<Rightarrow> world \<Rightarrow> (thrown + ToolResult) \<times> world" where
  "handleDeleteObject_try rt params w =
     bind (requireWriteAccess w) (\<lambda>_ w.
       bind (getCosmicClient w) (\<lambda>cosmic w.
         bind (await rt cosmic
                 (Call ''objects'' ''deleteOne''
                    [get_prop params ''id'', get_prop params ''trigger_webhook''] []) w)
           (\<lambda>response w.
              (Inr (text_result (JSON_stringify rt (JObj
                 [(''message'', JStr ''Object deleted successfully''),
                  (''id'', get_prop params ''id'')]))), w))))"

definition handleDeleteObject :: "runtime \<Rightarrow> jsval \<Rightarrow> world \<Rightarrow> ToolResult \<times> world" where
  "handleDeleteObject rt params w =
     try_catch (handleDeleteObject_try rt params w) ''Error deleting object: ''"


subsection \<open>Media\<close>

definition handleListMedia_try :: "runtime \<Rightarrow> jsval \<Rightarrow> world \<Rightarrow> (thrown + ToolResult) \<times> world" where
  "handleListMedia_try rt params w =
     bind (getCosmicClient w) (\<lambda>cosmic w.
       let query = [];
           query = (if truthy (get_prop params ''folder'')
                    then assign query ''folder'' (get_prop params ''folder'') else query);
           request = Call ''media'' ''find'' [JObj query] [];
           request = (if truthy (get_prop params ''props'')
                      then chain request ''props'' (get_prop params ''props'') else request);
           request = (if truthy (get_prop params ''limit'')
                      then chain request ''limit'' (get_prop params ''limit'') else request);
           request = (if truthy (get_prop params ''skip'')
                      then chain request ''skip'' (get_prop params ''skip'') else request)
       in bind (await rt cosmic request w) (\<lambda>response w.
            (Inr (text_result (JSON_stringify rt (JObj
               [(''media'', get_prop response ''media''),
                (''total'', get_prop response ''total'')]))), w)))"

definition handleListMedia :: "runtime \<Rightarrow> jsval \<Rightarrow> world \<Rightarrow> ToolResult \<times> world" where
  "handleListMedia rt params w =
     try_catch (handleListMedia_try rt params w) ''Error listing media: ''"

definition handleGetMedia_try :: "runtime \<Rightarrow> jsval \<Rightarrow> world \<Rightarrow> (thrown + ToolResult) \<times> world" where
  "handleGetMedia_try rt params w =
     bind (getCosmicClient w) (\<lambda>cosmic w.
       let request = Call ''media'' ''findOne'' [JObj [(''id'', get_prop params ''id'')]] [];
           request = (if truthy (get_prop params ''props'')
                      then chain request ''props'' (get_prop params ''props'') else request)
       in bind (await rt cosmic request w) (\<lambda>response w.
            (Inr (text_result (JSON_stringify rt (get_prop response ''media''))), w)))"

definition handleGetMedia :: "runtime \<Rightarrow> jsval \<Rightarrow> world \<Rightarrow> ToolResult \<times> world" where
  "handleGetMedia rt params w =
     try_catch (handleGetMedia_try rt params w) ''Error getting media: ''"

text \<open>
  \<open>s.startsWith(prefix)\<close> and the regular expression
  \<open>/^data:([^;]+);base64,(.+)$/\<close> of the upload handler, on the code units of the
  string; \<open>js\<close> gives the code units of an 8-bit literal. The first group cannot contain
  a semicolon and must be followed by one, so it is the text up to the first semicolon;
  the second group runs to the end of the string, and a dot matches every code unit but
  the four line terminators: line feed, carriage return, U+2028 and U+2029. The result is
  the pair of the two groups.
\<close>

definition js :: "string \<Rightarrow> nat list" where
  "js s = map of_char s"

fun startsWith :: "'a list \<Rightarrow> 'a list \<Rightarrow> bool" where
  "startsWith s [] = True"
| "startsWith [] (p # ps) = False"
| "startsWith (c # cs) (p # ps) = (c = p \<and> startsWith cs ps)"

definition line_terminator :: "nat \<Rightarrow> bool" where
  "line_terminator u = (u = 0x0A \<or> u = 0x0D \<or> u = 0x2028 \<or> u = 0x2029)"

definition match_data_uri :: "nat list \<Rightarrow> (nat list \<times> nat list) option" where
  "match_data_uri s =
     (if \<not> startsWith s (js ''data:'') then None
      else
        let rest = drop 5 s;
            mime = takeWhile (\<lambda>u. u \<noteq> of_char CHR '';'') rest;
            tail = dropWhile (\<lambda>u. u \<noteq> of_char CHR '';'') rest;
            payload = drop 8 tail
        in if mime = [] then None
           else if \<not> startsWith tail (js '';base64,'') then None
           else if payload = [] \<or> list_ex line_terminator payload then None
           else Some (mime, payload))"

text \<open>
  \<open>Buffer.from(text, 'base64')\<close> belongs to the Node.js runtime. Its decoder reads the
  standard and the URL-safe alphabet, skips every other character, stops at the first
  padding character and drops an incomplete last byte. \<open>Buffer_from_base64\<close> is that
  decoder on a text of 8-bit characters; what the runtime makes of a text that has a
  code unit above 255, which no base64 text has, is left to the runtime.
\<close>

definition base64_alphabet :: string where
  "base64_alphabet = ''ABCDEFGHIJKLMNOPQRSTUVWXYZabcdefghijklmnopqrstuvwxyz0123456789+/''"

fun index_of :: "'a \<Rightarrow> 'a list \<Rightarrow> nat option" where
  "index_of x [] = None"
| "index_of x (y # ys) = (if x = y then Some 0 else map_option Suc (index_of x ys))"

definition unbase64 :: "char \<Rightarrow> nat option" where
  "unbase64 c =
     (if c = CHR ''-'' then Some 62
      else if c = CHR ''_'' then Some 63
      else index_of c base64_alphabet)"

fun sextets :: "string \<Rightarrow> nat list" where
  "sextets [] = []"
| "sextets (c # cs) =
     (case unbase64 c of
        Some v \<Rightarrow> v # sextets cs
      | None \<Rightarrow> if c = CHR ''='' then [] else sextets cs)"

fun octets :: "nat list \<Rightarrow> nat list" where
  "octets (a # b # c # d # rest) =
     (a * 4 + b div 16) # ((b mod 16) * 16 + c div 4) # ((c mod 4) * 64 + d) # octets rest"
| "octets [a, b, c] = [a * 4 + b div 16, (b mod 16) * 16 + c div 4]"
| "octets [a, b] = [a * 4 + b div 16]"
| "octets _ = []"

definition Buffer_from_base64 :: "string \<Rightarrow> string" where
  "Buffer_from_base64 s = map char_of (octets (sextets s))"

definition Buffer_from :: "runtime \<Rightarrow> nat list \<Rightarrow> string" where
  "Buffer_from rt payload =
     (if list_all (\<lambda>u. u < 256) payload then Buffer_from_base64 (map char_of payload)
      else Buffer_from_wide_base64 rt payload)"

text \<open>
  The base64 encoding of a sequence of bytes as the standard defines it (RFC 4648, with
  padding): three bytes give four characters of the alphabet. It is not part of the
  server; the decoder is measured against it.
\<close>

fun base64_groups :: "nat list \<Rightarrow> string" where
  "base64_groups (a # b # c # rest) =
     [base64_alphabet ! (a div 4), base64_alphabet ! ((a mod 4) * 16 + b div 16),
      base64_alphabet ! ((b mod 16) * 4 + c div 64), base64_alphabet ! (c mod 64)]
     @ base64_groups rest"
| "base64_groups [a, b] =
     [base64_alphabet ! (a div 4), base64_alphabet ! ((a mod 4) * 16 + b div 16),
      base64_alphabet ! ((b mod 16) * 4), CHR ''='']"
| "base64_groups [a] =
     [base64_alphabet ! (a div 4), base64_alphabet ! ((a mod 4) * 16), CHR ''='', CHR ''='']"
| "base64_groups [] = []"

definition base64_encode :: "string \<Rightarrow> string" where
  "base64_encode bytes = base64_groups (map of_char bytes)"

text \<open>
  The media of an upload: the decoded bytes of a data URI, the invalid-format envelope
  for a malformed one, and the string itself, taken as a URL, for anything else.
  \<open>params.media\<close> is a string by the schema; on another value \<open>startsWith\<close> is not a
  function and the call throws a \<open>TypeError\<close>.
\<close>

definition mediaInput_of :: "runtime \<Rightarrow> jsval \<Rightarrow> thrown + ToolResult + jsval" where
  "mediaInput_of rt media =
     (case code_units media of
        Some s \<Rightarrow>
          if startsWith s (js ''data:'') then
            (case match_data_uri s of
               None \<Rightarrow> Inr (Inl (error_result
                 ''Error: Invalid base64 data URI format. Expected format: data:<mimetype>;base64,<data>''))
             | Some matches \<Rightarrow> Inr (Inr (JBuffer (Buffer_from rt (snd matches)))))
          else Inr (Inr media)
      | None \<Rightarrow>
          (case media of
             JUndefined \<Rightarrow>
               Inl (Error (''Cannot read properties of undefined (reading '' @
                           [CHR 0x27] @ ''startsWith'' @ [CHR 0x27] @ '')''))
           | JNull \<Rightarrow>
               Inl (Error (''Cannot read properties of null (reading '' @
                           [CHR 0x27] @ ''startsWith'' @ [CHR 0x27] @ '')''))
           | _ \<Rightarrow> Inl (Error ''params.media.startsWith is not a function'')))"

definition handleUploadMedia_try :: "runtime \<Rightarrow> jsval \<Rightarrow> world \<Rightarrow> (thrown + ToolResult) \<times> world" where
  "handleUploadMedia_try rt params w =
     bind (requireWriteAccess w) (\<lambda>_ w.
       bind (getCosmicClient w) (\<lambda>cosmic w.
         (case mediaInput_of rt (get_prop params ''media'') of
            Inl error \<Rightarrow> (Inl error, w)
          | Inr (Inl result) \<Rightarrow> (Inr result, w)
          | Inr (Inr mediaInput) \<Rightarrow>
              bind (await rt cosmic
                      (Call ''media'' ''insertOne''
                         [JObj [(''media'', mediaInput),
                                (''folder'', get_prop params ''folder''),
                                (''metadata'', get_prop params ''metadata''),
                                (''trigger_webhook'', get_prop params ''trigger_webhook'')]] []) w)
                (\<lambda>response w.
                   (Inr (text_result (JSON_stringify rt (JObj
                      [(''message'', JStr ''Media uploaded successfully''),
                       (''media'', get_prop response ''media'')]))), w)))))"

definition handleUploadMedia :: "runtime \<Rightarrow> jsval \<Rightarrow> world \<Rightarrow> ToolResult \<times> world" where
  "handleUploadMedia rt params w =
     try_catch (handleUploadMedia_try rt params w) ''Error uploading media: ''"

definition handleDeleteMedia_try :: "runtime \<Rightarrow> jsval \<Rightarrow> world \<Rightarrow> (thrown + ToolResult) \<times> world" where
  "handleDeleteMedia_try rt params w =
     bind (requireWriteAccess w) (\<lambda>_ w.
       bind (getCosmicClient w) (\<lambda>cosmic w.
         bind (await rt cosmic
                 (Call ''media'' ''deleteOne''
                    [get_prop params ''id'', get_prop params ''trigger_webhook''] []) w)
           (\<lambda>response w.
              (Inr (text_result (JSON_stringify rt (JObj
                 [(''message'', JStr ''Media deleted successfully''),
                  (''id'', get_prop params ''id'')]))), w))))"

definition handleDeleteMedia :: "runtime \<Rightarrow> jsval \<Rightarrow> world \<Rightarrow> ToolResult \<times> world" where
  "handleDeleteMedia rt params w =
     try_catch (handleDeleteMedia_try rt params w) ''Error deleting media: ''"

subsection \<open>Object types\<close>

definition handleListObjectTypes_try :: "runtime \<Rightarrow> world \<Rightarrow> (thrown + ToolResult) \<times> world" where
  "handleListObjectTypes_try rt w =
     bind (getCosmicClient w) (\<lambda>cosmic w.
       bind (await rt cosmic (Call ''objectTypes'' ''find'' [] []) w) (\<lambda>response w.
         (Inr (text_result (JSON_stringify rt (JObj
            [(''object_types'', get_prop response ''object_types'')]))), w)))"

definition handleListObjectTypes :: "runtime \<Rightarrow> world \<Rightarrow> ToolResult \<times> world" where
  "handleListObjectTypes rt w =
     try_catch (handleListObjectTypes_try rt w) ''Error listing object types: ''"

definition handleGetObjectType_try :: "runtime \<Rightarrow> jsval \<Rightarrow> world \<Rightarrow> (thrown + ToolResult) \<times> world" where
  "handleGetObjectType_try rt params w =
     bind (getCosmicClient w) (\<lambda>cosmic w.
       bind (await rt cosmic (Call ''objectTypes'' ''findOne'' [get_prop params ''slug''] []) w)
         (\<lambda>response w.
            (Inr (text_result (JSON_stringify rt (get_prop response ''object_type''))), w)))"

definition handleGetObjectType :: "runtime \<Rightarrow> jsval \<Rightarrow> world \<Rightarrow> ToolResult \<times> world" where
  "handleGetObjectType rt params w =
     try_catch (handleGetObjectType_try rt params w) ''Error getting object type: ''"

definition handleCreateObjectType_try :: "runtime \<Rightarrow> jsval \<Rightarrow> world \<Rightarrow> (thrown + ToolResult) \<times> world" where
  "handleCreateObjectType_try rt params w =
     bind (requireWriteAccess w) (\<lambda>_ w.
       bind (getCosmicClient w) (\<lambda>cosmic w.
         bind (await rt cosmic
                 (Call ''objectTypes'' ''insertOne''
                    [JObj [(''title'', get_prop params ''title''),
                           (''slug'', get_prop params ''slug''),
                           (''singular'', get_prop params ''singular''),
                           (''metafields'', get_prop params ''metafields''),
                           (''options'', get_prop params ''options'')]] []) w)
           (\<lambda>response w.
              (Inr (text_result (JSON_stringify rt (JObj
                 [(''message'', JStr ''Object type created successfully''),
                  (''object_type'', get_prop response ''object_type'')]))), w))))"

definition handleCreateObjectType :: "runtime \<Rightarrow> jsval \<Rightarrow> world \<Rightarrow> ToolResult \<times> world" where
  "handleCreateObjectType rt params w =
     try_catch (handleCreateObjectType_try rt params w) ''Error creating object type: ''"

definition handleUpdateObjectType_try :: "runtime \<Rightarrow> jsval \<Rightarrow> world \<Rightarrow> (thrown + ToolResult) \<times> world" where
  "handleUpdateObjectType_try rt params w =
     bind (requireWriteAccess w) (\<lambda>_ w.
       bind (getCosmicClient w) (\<lambda>cosmic w.
         let updates = [];
             updates = copy_defined params ''title'' updates;
             updates = copy_defined params ''singular'' updates;
             updates = copy_defined params ''metafields'' updates;
             updates = copy_defined params ''options'' updates
         in bind (await rt cosmic
                    (Call ''objectTypes'' ''updateOne'' [get_prop params ''slug'', JObj updates] []) w)
              (\<lambda>response w.
                 (Inr (text_result (JSON_stringify rt (JObj
                    [(''message'', JStr ''Object type updated successfully''),
                     (''object_type'', get_prop response ''object_type'')]))), w))))"

definition handleUpdateObjectType :: "runtime \<Rightarrow> jsval \<Rightarrow> world \<Rightarrow> ToolResult \<times> world" where
  "handleUpdateObjectType rt params w =
     try_catch (handleUpdateObjectType_try rt params w) ''Error updating object type: ''"

definition handleDeleteObjectType_try :: "runtime \<Rightarrow> jsval \<Rightarrow> world \<Rightarrow> (thrown + ToolResult) \<times> world" where
  "handleDeleteObjectType_try rt params w =
     bind (requireWriteAccess w) (\<lambda>_ w.
       bind (getCosmicClient w) (\<lambda>cosmic w.
         bind (await rt cosmic (Call ''objectTypes'' ''deleteOne'' [get_prop params ''slug''] []) w)
           (\<lambda>response w.
              (Inr (text_result (JSON_stringify rt (JObj
                 [(''message'', JStr ''Object type deleted successfully''),
                  (''slug'', get_prop params ''slug'')]))), w))))"

definition handleDeleteObjectType :: "runtime \<Rightarrow> jsval \<Rightarrow> world \<Rightarrow> ToolResult \<times> world" where
  "handleDeleteObjectType rt params w =
     try_catch (handleDeleteObjectType_try rt params w) ''Error deleting object type: ''"

subsection \<open>AI generation\<close>

definition handleGenerateText_try :: "runtime \<Rightarrow> jsval \<Rightarrow> world \<Rightarrow> (thrown + ToolResult) \<times> world" where
  "handleGenerateText_try rt params w =
     bind (getCosmicClient w) (\<lambda>cosmic w.
       bind (await rt cosmic
               (Call ''ai'' ''generateText''
                  [JObj [(''prompt'', get_prop params ''prompt''),
                         (''model'', get_prop params ''model''),
                         (''max_tokens'', get_prop params ''max_tokens'')]] []) w)
         (\<lambda>response w.
            (Inr (text_result (JSON_stringify rt (JObj
               [(''message'', JStr ''Text generated successfully''),
                (''text'', get_prop response ''text''),
                (''model'', get_prop response ''model''),
                (''usage'', get_prop response ''usage'')]))), w)))"

definition handleGenerateText :: "runtime \<Rightarrow> jsval \<Rightarrow> world \<Rightarrow> ToolResult \<times> world" where
  "handleGenerateText rt params w =
     try_catch (handleGenerateText_try rt params w) ''Error generating text: ''"

definition handleGenerateImage_try :: "runtime \<Rightarrow> jsval \<Rightarrow> world \<Rightarrow> (thrown + ToolResult) \<times> world" where
  "handleGenerateImage_try rt params w =
     bind (requireWriteAccess w) (\<lambda>_ w.
       bind (getCosmicClient w) (\<lambda>cosmic w.
         bind (await rt cosmic
                 (Call ''ai'' ''generateImage''
                    [JObj [(''prompt'', get_prop params ''prompt''),
                           (''model'', get_prop params ''model''),
                           (''folder'', get_prop params ''folder''),
                           (''metadata'', get_prop params ''metadata''),
                           (''alt_text'', get_prop params ''alt_text'')]] []) w)
           (\<lambda>response w.
              (Inr (text_result (JSON_stringify rt (JObj
                 [(''message'', JStr ''Image generated successfully''),
                  (''media'', get_prop response ''media'')]))), w))))"

definition handleGenerateImage :: "runtime \<Rightarrow> jsval \<Rightarrow> world \<Rightarrow> ToolResult \<times> world" where
  "handleGenerateImage rt params w =
     try_catch (handleGenerateImage_try rt params w) ''Error generating image: ''"

definition handleGenerateVideo_try :: "runtime \<Rightarrow> jsval \<Rightarrow> world \<Rightarrow> (thrown + ToolResult) \<times> world" where
  "handleGenerateVideo_try rt params w =
     bind (requireWriteAccess w) (\<lambda>_ w.
       bind (getCosmicClient w) (\<lambda>cosmic w.
         let duration = (if truthy (get_prop params ''duration'')
                         then parseInt rt (get_prop params ''duration'') else JUndefined)
         in bind (await rt cosmic
                    (Call ''ai'' ''generateVideo''
                       [JObj [(''prompt'', get_prop params ''prompt''),
                              (''model'', get_prop params ''model''),
                              (''duration'', duration),
                              (''resolution'', get_prop params ''resolution''),
                              (''folder'', get_prop params ''folder''),
                              (''metadata'', get_prop params ''metadata'')]] []) w)
              (\<lambda>response w.
                 (Inr (text_result (JSON_stringify rt (JObj
                    [(''message'', JStr ''Video generated successfully''),
                     (''media'', get_prop response ''media''),
                     (''usage'', get_prop response ''usage'')]))), w))))"

definition handleGenerateVideo :: "runtime \<Rightarrow> jsval \<Rightarrow> world \<Rightarrow> ToolResult \<times> world" where
  "handleGenerateVideo rt params w =
     try_catch (handleGenerateVideo_try rt params w) ''Error generating video: ''"


section \<open>The tool catalogs\<close>

record Tool =
  name :: string
  description :: string
  inputSchema :: jsval

definition objectTools :: "Tool list" where
  \<open>objectTools =
    [\<lparr>name = ''cosmic_objects_list'',
      description =
        ''List objects from the Cosmic bucket with optional filters for type, status, and pagination. Returns an array of objects with their metadata.'',
      inputSchema =
        JObj
           [(''type'', JStr ''object''),
            (''properties'',
             JObj
               [(''type'',
                 JObj
                   [(''type'', JStr ''string''),
                    (''description'', JStr ''Object type slug to filter by'')]),
                (''status'',
                 JObj
                   [(''type'', JStr ''string''),
                    (''enum'', JArr [JStr ''published'', JStr ''draft'', JStr ''any'']),
                    (''description'', JStr ''Filter by publication status''),
                    (''default'', JStr ''any'')]),
                (''limit'',
                 JObj
                   [(''type'', JStr ''number''),
                    (''description'', JStr ''Maximum number of objects to return (1-100)''),
                    (''default'', JNum 10)]),
                (''skip'',
                 JObj
                   [(''type'', JStr ''number''),
                    (''description'', JStr ''Number of objects to skip for pagination''),
                    (''default'', JNum 0)]),
                (''props'',
                 JObj
                   [(''type'', JStr ''array''),
                    (''items'',
                     JObj
                       [(''type'', JStr ''string'')]),
                    (''description'', JStr ''Specific properties to return'')]),
                (''sort'',
                 JObj
                   [(''type'', JStr ''string''),
                    (''description'', JStr ''Sort order (e.g., "-created_at" for descending)'')]),
                (''depth'',
                 JObj
                   [(''type'', JStr ''number''),
                    (''description'', JStr ''Depth of nested object relationships to include (0-3)'')]),
                (''query'',
                 JObj
                   [(''type'', JStr ''object''),
                    (''description'', JStr ''Custom query object for advanced filtering'')])])]\<rparr>,
     \<lparr>name = ''cosmic_objects_get'',
      description =
        ''Get a single object by ID or by slug+type. Returns the full object with all metadata.'',
      inputSchema =
        JObj
           [(''type'', JStr ''object''),
            (''properties'',
             JObj
               [(''id'',
                 JObj
                   [(''type'', JStr ''string''),
                    (''description'', JStr ''Object ID'')]),
                (''slug'',
                 JObj
                   [(''type'', JStr ''string''),
                    (''description'', JStr ''Object slug (requires type parameter)'')]),
                (''type'',
                 JObj
                   [(''type'', JStr ''string''),
                    (''description'', JStr ''Object type slug (required when using slug)'')]),
                (''props'',
                 JObj
                   [(''type'', JStr ''array''),
                    (''items'',
                     JObj
                       [(''type'', JStr ''string'')]),
                    (''description'', JStr ''Specific properties to return'')]),
                (''status'',
                 JObj
                   [(''type'', JStr ''string''),
                    (''enum'', JArr [JStr ''published'', JStr ''draft'', JStr ''any'']),
                    (''description'', JStr ''Filter by publication status''),
                    (''default'', JStr ''any'')])])]\<rparr>,
     \<lparr>name = ''cosmic_objects_create'',
      description =
        ''Create a new object in the Cosmic bucket. Requires write access.'',
      inputSchema =
        JObj
           [(''type'', JStr ''object''),
            (''properties'',
             JObj
               [(''title'',
                 JObj
                   [(''type'', JStr ''string''),
                    (''description'', JStr ''Object title'')]),
                (''type'',
                 JObj
                   [(''type'', JStr ''string''),
                    (''description'', JStr ''Object type slug'')]),
                (''slug'',
                 JObj
                   [(''type'', JStr ''string''),
                    (''description'', JStr ''Custom slug (auto-generated if not provided)'')]),
                (''content'',
                 JObj
                   [(''type'', JStr ''string''),
                    (''description'', JStr ''Object content (HTML or plain text)'')]),
                (''status'',
                 JObj
                   [(''type'', JStr ''string''),
                    (''enum'', JArr [JStr ''published'', JStr ''draft'']),
                    (''description'', JStr ''Publication status''),
                    (''default'', JStr ''draft'')]),
                (''metadata'',
                 JObj
                   [(''type'', JStr ''object''),
                    (''description'', JStr ''Metadata fields matching the object type schema'')]),
                (''locale'',
                 JObj
                   [(''type'', JStr ''string''),
                    (''description'', JStr ''Locale code for localized content'')])]),
            (''required'', JArr [JStr ''title'', JStr ''type''])]\<rparr>,
     \<lparr>name = ''cosmic_objects_update'',
      description =
        ''Update an existing object by ID. Only provided fields will be updated. Requires write access.'',
      inputSchema =
        JObj
           [(''type'', JStr ''object''),
            (''properties'',
             JObj
               [(''id'',
                 JObj
                   [(''type'', JStr ''string''),
                    (''description'', JStr ''Object ID to update'')]),
                (''title'',
                 JObj
                   [(''type'', JStr ''string''),
                    (''description'', JStr ''New object title'')]),
                (''slug'',
                 JObj
                   [(''type'', JStr ''string''),
                    (''description'', JStr ''New object slug'')]),
                (''content'',
                 JObj
                   [(''type'', JStr ''string''),
                    (''description'', JStr ''New object content'')]),
                (''status'',
                 JObj
                   [(''type'', JStr ''string''),
                    (''enum'', JArr [JStr ''published'', JStr ''draft'']),
                    (''description'', JStr ''New publication status'')]),
                (''metadata'',
                 JObj
                   [(''type'', JStr ''object''),
                    (''description'', JStr ''Updated metadata fields'')])]),
            (''required'', JArr [JStr ''id''])]\<rparr>,
     \<lparr>name = ''cosmic_objects_delete'',
      description =
        ''Delete an object by ID. This action is permanent. Requires write access.'',
      inputSchema =
        JObj
           [(''type'', JStr ''object''),
            (''properties'',
             JObj
               [(''id'',
                 JObj
                   [(''type'', JStr ''string''),
                    (''description'', JStr ''Object ID to delete'')]),
                (''trigger_webhook'',
                 JObj
                   [(''type'', JStr ''boolean''),
                    (''description'', JStr ''Whether to trigger webhooks on delete''),
                    (''default'', JBool True)])]),
            (''required'', JArr [JStr ''id''])]\<rparr>]\<close>

definition mediaTools :: "Tool list" where
  \<open>mediaTools =
    [\<lparr>name = ''cosmic_media_list'',
      description =
        ''List media files from the Cosmic bucket with optional folder filter and pagination.'',
      inputSchema =
        JObj
           [(''type'', JStr ''object''),
            (''properties'',
             JObj
               [(''folder'',
                 JObj
                   [(''type'', JStr ''string''),
                    (''description'', JStr ''Filter by folder slug'')]),
                (''limit'',
                 JObj
                   [(''type'', JStr ''number''),
                    (''description'', JStr ''Maximum number of media files to return (1-100)''),
                    (''default'', JNum 10)]),
                (''skip'',
                 JObj
                   [(''type'', JStr ''number''),
                    (''description'', JStr ''Number of media files to skip for pagination''),
                    (''default'', JNum 0)]),
                (''props'',
                 JObj
                   [(''type'', JStr ''array''),
                    (''items'',
                     JObj
                       [(''type'', JStr ''string'')]),
                    (''description'', JStr ''Specific properties to return'')])])]\<rparr>,
     \<lparr>name = ''cosmic_media_get'',
      description =
        ''Get details of a single media file by ID. Returns the full media object with URL and metadata.'',
      inputSchema =
        JObj
           [(''type'', JStr ''object''),
            (''properties'',
             JObj
               [(''id'',
                 JObj
                   [(''type'', JStr ''string''),
                    (''description'', JStr ''Media file ID'')]),
                (''props'',
                 JObj
                   [(''type'', JStr ''array''),
                    (''items'',
                     JObj
                       [(''type'', JStr ''string'')]),
                    (''description'', JStr ''Specific properties to return'')])]),
            (''required'', JArr [JStr ''id''])]\<rparr>,
     \<lparr>name = ''cosmic_media_upload'',
      description =
        ''Upload a media file to the Cosmic bucket from a URL or base64-encoded data. Requires write access.'',
      inputSchema =
        JObj
           [(''type'', JStr ''object''),
            (''properties'',
             JObj
               [(''media'',
                 JObj
                   [(''type'', JStr ''string''),
                    (''description'',
                     JStr ''URL to fetch media from, or base64-encoded data with data URI prefix (e.g., "data:image/png;base64,...")'')]),
                (''folder'',
                 JObj
                   [(''type'', JStr ''string''),
                    (''description'', JStr ''Folder to upload to'')]),
                (''metadata'',
                 JObj
                   [(''type'', JStr ''object''),
                    (''description'', JStr ''Additional metadata for the media file'')]),
                (''trigger_webhook'',
                 JObj
                   [(''type'', JStr ''boolean''),
                    (''description'', JStr ''Whether to trigger webhooks on upload''),
                    (''default'', JBool True)])]),
            (''required'', JArr [JStr ''media''])]\<rparr>,
     \<lparr>name = ''cosmic_media_delete'',
      description =
        ''Delete a media file by ID. This action is permanent. Requires write access.'',
      inputSchema =
        JObj
           [(''type'', JStr ''object''),
            (''properties'',
             JObj
               [(''id'',
                 JObj
                   [(''type'', JStr ''string''),
                    (''description'', JStr ''Media file ID to delete'')]),
                (''trigger_webhook'',
                 JObj
                   [(''type'', JStr ''boolean''),
                    (''description'', JStr ''Whether to trigger webhooks on delete''),
                    (''default'', JBool True)])]),
            (''required'', JArr [JStr ''id''])]\<rparr>]\<close>

definition objectTypeTools :: "Tool list" where
  \<open>objectTypeTools =
    [\<lparr>name = ''cosmic_types_list'',
      description =
        ''List all object types in the Cosmic bucket. Returns the schema definitions including metafields for each type.'',
      inputSchema =
        JObj
           [(''type'', JStr ''object''),
            (''properties'', JObj [])]\<rparr>,
     \<lparr>name = ''cosmic_types_get'',
      description =
        ''Get a single object type by slug. Returns the full schema including all metafield definitions.'',
      inputSchema =
        JObj
           [(''type'', JStr ''object''),
            (''properties'',
             JObj
               [(''slug'',
                 JObj
                   [(''type'', JStr ''string''),
                    (''description'', JStr ''Object type slug'')])]),
            (''required'', JArr [JStr ''slug''])]\<rparr>,
     \<lparr>name = ''cosmic_types_create'',
      description =
        ''Create a new object type with a custom schema. Define metafields to structure your content. Requires write access.'',
      inputSchema =
        JObj
           [(''type'', JStr ''object''),
            (''properties'',
             JObj
               [(''title'',
                 JObj
                   [(''type'', JStr ''string''),
                    (''description'', JStr ''Object type title (plural form, e.g., "Blog Posts")'')]),
                (''slug'',
                 JObj
                   [(''type'', JStr ''string''),
                    (''description'',
                     JStr ''Object type slug (URL-friendly identifier, e.g., "blog-posts")'')]),
                (''singular'',
                 JObj
                   [(''type'', JStr ''string''),
                    (''description'', JStr ''Singular form of the title (e.g., "Blog Post")'')]),
                (''metafields'',
                 JObj
                   [(''type'', JStr ''array''),
                    (''description'', JStr ''Array of metafield definitions''),
                    (''items'',
                     JObj
                       [(''type'', JStr ''object''),
                        (''properties'',
                         JObj
                           [(''key'',
                             JObj
                               [(''type'', JStr ''string''),
                                (''description'', JStr ''Unique key'')]),
                            (''title'',
                             JObj
                               [(''type'', JStr ''string''),
                                (''description'', JStr ''Display title'')]),
                            (''type'',
                             JObj
                               [(''type'', JStr ''string''),
                                (''enum'',
                                 JArr [JStr ''text'', JStr ''textarea'', JStr ''html-textarea'', JStr ''markdown'', JStr ''number'', JStr ''date'', JStr ''switch'', JStr ''select-dropdown'', JStr ''radio-buttons'', JStr ''check-boxes'', JStr ''file'', JStr ''object'', JStr ''objects'', JStr ''repeater'', JStr ''parent'']),
                                (''description'', JStr ''Metafield type'')]),
                            (''required'',
                             JObj
                               [(''type'', JStr ''boolean''),
                                (''description'', JStr ''Whether required'')])]),
                        (''required'', JArr [JStr ''key'', JStr ''title'', JStr ''type''])])]),
                (''options'',
                 JObj
                   [(''type'', JStr ''object''),
                    (''description'', JStr ''Object type options''),
                    (''properties'',
                     JObj
                       [(''slug_field'',
                         JObj
                           [(''type'', JStr ''boolean''),
                            (''description'', JStr ''Enable slug field'')]),
                        (''content_editor'',
                         JObj
                           [(''type'', JStr ''boolean''),
                            (''description'', JStr ''Enable content editor'')])])])]),
            (''required'', JArr [JStr ''title'', JStr ''slug''])]\<rparr>,
     \<lparr>name = ''cosmic_types_update'',
      description =
        ''Update an existing object type schema. Can modify title, metafields, and options. Requires write access.'',
      inputSchema =
        JObj
           [(''type'', JStr ''object''),
            (''properties'',
             JObj
               [(''slug'',
                 JObj
                   [(''type'', JStr ''string''),
                    (''description'', JStr ''Object type slug to update'')]),
                (''title'',
                 JObj
                   [(''type'', JStr ''string''),
                    (''description'', JStr ''New object type title'')]),
                (''singular'',
                 JObj
                   [(''type'', JStr ''string''),
                    (''description'', JStr ''New singular form of the title'')]),
                (''metafields'',
                 JObj
                   [(''type'', JStr ''array''),
                    (''description'', JStr ''Updated array of metafield definitions''),
                    (''items'',
                     JObj
                       [(''type'', JStr ''object''),
                        (''properties'',
                         JObj
                           [(''key'',
                             JObj
                               [(''type'', JStr ''string'')]),
                            (''title'',
                             JObj
                               [(''type'', JStr ''string'')]),
                            (''type'',
                             JObj
                               [(''type'', JStr ''string'')]),
                            (''required'',
                             JObj
                               [(''type'', JStr ''boolean'')])])])]),
                (''options'',
                 JObj
                   [(''type'', JStr ''object''),
                    (''description'', JStr ''Updated object type options''),
                    (''properties'',
                     JObj
                       [(''slug_field'',
                         JObj
                           [(''type'', JStr ''boolean'')]),
                        (''content_editor'',
                         JObj
                           [(''type'', JStr ''boolean'')])])])]),
            (''required'', JArr [JStr ''slug''])]\<rparr>,
     \<lparr>name = ''cosmic_types_delete'',
      description =
        ''Delete an object type by slug. WARNING: This will also delete all objects of this type. Requires write access.'',
      inputSchema =
        JObj
           [(''type'', JStr ''object''),
            (''properties'',
             JObj
               [(''slug'',
                 JObj
                   [(''type'', JStr ''string''),
                    (''description'', JStr ''Object type slug to delete'')])]),
            (''required'', JArr [JStr ''slug''])]\<rparr>]\<close>

definition aiTools :: "Tool list" where
  \<open>aiTools =
    [\<lparr>name = ''cosmic_ai_generate_text'',
      description =
        ''Generate text content using Cosmic AI. Useful for creating content, descriptions, summaries, and more.'',
      inputSchema =
        JObj
           [(''type'', JStr ''object''),
            (''properties'',
             JObj
               [(''prompt'',
                 JObj
                   [(''type'', JStr ''string''),
                    (''description'', JStr ''The prompt to generate text from'')]),
                (''model'',
                 JObj
                   [(''type'', JStr ''string''),
                    (''description'', JStr ''AI model to use (e.g., "gpt-4", "claude-3-opus")'')]),
                (''max_tokens'',
                 JObj
                   [(''type'', JStr ''number''),
                    (''description'', JStr ''Maximum number of tokens to generate'')])]),
            (''required'', JArr [JStr ''prompt''])]\<rparr>,
     \<lparr>name = ''cosmic_ai_generate_image'',
      description =
        ''Generate an image using Cosmic AI and automatically upload it to your media library. Requires write access.'',
      inputSchema =
        JObj
           [(''type'', JStr ''object''),
            (''properties'',
             JObj
               [(''prompt'',
                 JObj
                   [(''type'', JStr ''string''),
                    (''description'', JStr ''The prompt describing the image to generate'')]),
                (''model'',
                 JObj
                   [(''type'', JStr ''string''),
                    (''description'', JStr ''AI model to use for image generation'')]),
                (''folder'',
                 JObj
                   [(''type'', JStr ''string''),
                    (''description'', JStr ''Folder to save the generated image to'')]),
                (''metadata'',
                 JObj
                   [(''type'', JStr ''object''),
                    (''description'', JStr ''Additional metadata for the generated image'')]),
                (''alt_text'',
                 JObj
                   [(''type'', JStr ''string''),
                    (''description'', JStr ''Alt text for the generated image'')])]),
            (''required'', JArr [JStr ''prompt''])]\<rparr>,
     \<lparr>name = ''cosmic_ai_generate_video'',
      description =
        ''Generate a video using Cosmic AI (powered by Veo) and automatically upload it to your media library. Requires write access.'',
      inputSchema =
        JObj
           [(''type'', JStr ''object''),
            (''properties'',
             JObj
               [(''prompt'',
                 JObj
                   [(''type'', JStr ''string''),
                    (''description'', JStr ''The prompt describing the video to generate'')]),
                (''model'',
                 JObj
                   [(''type'', JStr ''string''),
                    (''description'', JStr ''AI model to use for video generation'')]),
                (''duration'',
                 JObj
                   [(''type'', JStr ''string''),
                    (''enum'', JArr [JStr ''4'', JStr ''6'', JStr ''8'']),
                    (''description'', JStr ''Video duration in seconds (4, 6, or 8)'')]),
                (''resolution'',
                 JObj
                   [(''type'', JStr ''string''),
                    (''enum'', JArr [JStr ''720p'', JStr ''1080p'']),
                    (''description'', JStr ''Video resolution'')]),
                (''folder'',
                 JObj
                   [(''type'', JStr ''string''),
                    (''description'', JStr ''Folder to save the generated video to'')]),
                (''metadata'',
                 JObj
                   [(''type'', JStr ''object''),
                    (''description'', JStr ''Additional metadata for the generated video'')])]),
            (''required'', JArr [JStr ''prompt''])]\<rparr>]\<close>

definition allTools :: "Tool list" where
  "allTools = objectTools @ mediaTools @ objectTypeTools @ aiTools"

section \<open>The request handlers of the server\<close>

definition ListToolsRequest_handler :: "Tool list" where
  "ListToolsRequest_handler = allTools"

text \<open>
  \<open>schema.parse(args)\<close>: the parsed parameters, or a thrown \<open>ZodError\<close>.
\<close>

definition parse :: "runtime \<Rightarrow> zschema \<Rightarrow> jsval \<Rightarrow> thrown + jsval" where
  "parse rt schema data =
     (case zparse schema [] data of
        Inl issues \<Rightarrow> Inl (Error (ZodError_message rt issues))
      | Inr params \<Rightarrow> Inr params)"

definition toCallToolResult :: "ToolResult \<Rightarrow> ToolResult" where
  "toCallToolResult result = \<lparr>content = content result, isError = isError result\<rparr>"

text \<open>
  The \<open>switch\<close> on the tool name, case by case in the order of the source. A case either
  parses the arguments with a schema and passes the parameters to a handler, or calls a
  handler that takes none. The first case whose label equals the name is taken.
\<close>

datatype tool_case =
    Parsed zschema "runtime \<Rightarrow> jsval \<Rightarrow> world \<Rightarrow> ToolResult \<times> world"
  | Unparsed "runtime \<Rightarrow> world \<Rightarrow> ToolResult \<times> world"

definition switch_cases :: "(string \<times> tool_case) list" where
  "switch_cases =
    [(''cosmic_objects_list'', Parsed listObjectsSchema handleListObjects),
     (''cosmic_objects_get'', Parsed getObjectSchema handleGetObject),
     (''cosmic_objects_create'', Parsed createObjectSchema handleCreateObject),
     (''cosmic_objects_update'', Parsed updateObjectSchema handleUpdateObject),
     (''cosmic_objects_delete'', Parsed deleteObjectSchema handleDeleteObject),
     (''cosmic_media_list'', Parsed listMediaSchema handleListMedia),
     (''cosmic_media_get'', Parsed getMediaSchema handleGetMedia),
     (''cosmic_media_upload'', Parsed uploadMediaSchema handleUploadMedia),
     (''cosmic_media_delete'', Parsed deleteMediaSchema handleDeleteMedia),
     (''cosmic_types_list'', Unparsed handleListObjectTypes),
     (''cosmic_types_get'', Parsed getObjectTypeSchema handleGetObjectType),
     (''cosmic_types_create'', Parsed createObjectTypeSchema handleCreateObjectType),
     (''cosmic_types_update'', Parsed updateObjectTypeSchema handleUpdateObjectType),
     (''cosmic_types_delete'', Parsed deleteObjectTypeSchema handleDeleteObjectType),
     (''cosmic_ai_generate_text'', Parsed generateTextSchema handleGenerateText),
     (''cosmic_ai_generate_image'', Parsed generateImageSchema handleGenerateImage),
     (''cosmic_ai_generate_video'', Parsed generateVideoSchema handleGenerateVideo)]"

definition run_case :: "runtime \<Rightarrow> tool_case \<Rightarrow> jsval \<Rightarrow> world \<Rightarrow> (thrown + ToolResult) \<times> world" where
  "run_case rt c args w =
     (case c of
        Parsed schema handler \<Rightarrow>
          (case parse rt schema args of
             Inl error \<Rightarrow> (Inl error, w)
           | Inr params \<Rightarrow>
               (case handler rt params w of (result, w') \<Rightarrow> (Inr (toCallToolResult result), w')))
      | Unparsed handler \<Rightarrow>
          (case handler rt w of (result, w') \<Rightarrow> (Inr (toCallToolResult result), w')))"

definition CallToolRequest_try :: "runtime \<Rightarrow> string \<Rightarrow> jsval \<Rightarrow> world \<Rightarrow> (thrown + ToolResult) \<times> world" where
  "CallToolRequest_try rt nm args w =
     (case map_of switch_cases nm of
        Some c \<Rightarrow> run_case rt c args w
      | None \<Rightarrow> (Inr (error_result (''Unknown tool: '' @ nm)), w))"

definition CallToolRequest_handler :: "runtime \<Rightarrow> string \<Rightarrow> jsval \<Rightarrow> world \<Rightarrow> ToolResult \<times> world" where
  "CallToolRequest_handler rt nm args w =
     (case CallToolRequest_try rt nm args w of
        (Inl error, w') \<Rightarrow>
          (error_result (''Error executing tool '' @ nm @ '': '' @ error_message error), w')
      | (Inr result, w') \<Rightarrow> (result, w'))"


section \<open>A concrete runtime and two processes\<close>

text \<open>
  For running the server on concrete requests: a runtime whose backend answers every
  operation with an empty response object, a process configured with all three
  settings, and one without the write key.
\<close>

definition demo_runtime :: runtime where
  "demo_runtime =
     \<lparr>JSON_stringify = (\<lambda>v. ''{}''),
      ZodError_message = (\<lambda>issues. ''invalid arguments''),
      parseInt = (\<lambda>v. if v = JStr ''4'' then JNum 4 else if v = JStr ''6'' then JNum 6
                        else if v = JStr ''8'' then JNum 8 else JUndefined),
      Buffer_from_wide_base64 = (\<lambda>payload. []),
      backend = (\<lambda>client history request. Inr [])\<rparr>"

definition demo_world :: world where
  "demo_world =
     \<lparr>env = \<lparr>COSMIC_BUCKET_SLUG = Some ''my-bucket'',
              COSMIC_READ_KEY = Some ''read-key'',
              COSMIC_WRITE_KEY = Some ''write-key''\<rparr>,
      cosmicClient = None,
      calls = []\<rparr>"

definition readonly_world :: world where
  "readonly_world =
     \<lparr>env = \<lparr>COSMIC_BUCKET_SLUG = Some ''my-bucket'',
              COSMIC_READ_KEY = Some ''read-key'',
              COSMIC_WRITE_KEY = None\<rparr>,
      cosmicClient = None,
      calls = []\<rparr>"


section \<open>The registry\<close>

lemma switch_labels: "map fst switch_cases = map name allTools"
  by (simp add: switch_cases_def allTools_def objectTools_def mediaTools_def
      objectTypeTools_def aiTools_def)

lemma tool_names:
  "map name allTools =
    [''cosmic_objects_list'', ''cosmic_objects_get'', ''cosmic_objects_create'',
     ''cosmic_objects_update'', ''cosmic_objects_delete'',
     ''cosmic_media_list'', ''cosmic_media_get'', ''cosmic_media_upload'', ''cosmic_media_delete'',
     ''cosmic_types_list'', ''cosmic_types_get'', ''cosmic_types_create'',
     ''cosmic_types_update'', ''cosmic_types_delete'',
     ''cosmic_ai_generate_text'', ''cosmic_ai_generate_image'', ''cosmic_ai_generate_video'']"
  by (simp add: allTools_def objectTools_def mediaTools_def objectTypeTools_def aiTools_def)

text \<open>
  Claim C9. The list returned by list-tools is the four catalogs in the order objects,
  media, types, AI: 5 + 4 + 5 + 3 = 17 descriptors with pairwise distinct names. The
  labels of the \<open>switch\<close> are pairwise distinct too, and they are exactly the listed
  names: every descriptor has one handler branch and every branch has a descriptor.
\<close>

theorem tool_catalog:
  "ListToolsRequest_handler = objectTools @ mediaTools @ objectTypeTools @ aiTools
   \<and> length objectTools = 5 \<and> length mediaTools = 4
   \<and> length objectTypeTools = 5 \<and> length aiTools = 3
   \<and> length ListToolsRequest_handler = 17
   \<and> distinct (map name ListToolsRequest_handler)
   \<and> distinct (map fst switch_cases)
   \<and> set (map fst switch_cases) = set (map name ListToolsRequest_handler)"
proof -
  have "distinct (map name allTools)"
    unfolding tool_names by simp
  moreover have "length objectTools = 5" "length mediaTools = 4"
    "length objectTypeTools = 5" "length aiTools = 3"
    by (simp_all add: objectTools_def mediaTools_def objectTypeTools_def aiTools_def)
  ultimately show ?thesis
    by (simp add: ListToolsRequest_handler_def switch_labels) (simp add: allTools_def)
qed

section \<open>Unknown tools\<close>

text \<open>
  Claim C5. A call whose name is not one of the 17 listed names returns the error
  envelope with the single text \<open>Unknown tool: <name>\<close>. The result does not depend on
  the runtime (no schema and no backend is consulted) and the world is left as it was:
  no client is created and no operation is issued.
\<close>

theorem unknown_tool:
  "nm \<notin> set (map name allTools) \<Longrightarrow>
   CallToolRequest_handler rt nm args w =
     (\<lparr>content = [''Unknown tool: '' @ nm], isError = Some True\<rparr>, w)"
proof -
  assume "nm \<notin> set (map name allTools)"
  then have "nm \<notin> set (map fst switch_cases)"
    unfolding switch_labels .
  then have "map_of switch_cases nm = None"
    by (simp add: map_of_eq_None_iff)
  then show ?thesis
    by (simp add: CallToolRequest_handler_def CallToolRequest_try_def error_result_def)
qed

theorem unknown_tool_witness:
  "''cosmic_objects_purge'' \<notin> set (map name allTools) \<and>
   CallToolRequest_handler demo_runtime ''cosmic_objects_purge'' (JObj []) demo_world =
     (\<lparr>content = [''Unknown tool: cosmic_objects_purge''], isError = Some True\<rparr>, demo_world)"
proof -
  have h: "''cosmic_objects_purge'' \<notin> set (map name allTools)"
    unfolding tool_names by simp
  show ?thesis
    using h unknown_tool [OF h, of demo_runtime "JObj []" demo_world] by simp
qed

section \<open>Running the handlers\<close>

lemmas handler_defs =
  handleListObjects_def handleGetObject_def handleCreateObject_def handleUpdateObject_def
  handleDeleteObject_def handleListMedia_def handleGetMedia_def handleUploadMedia_def
  handleDeleteMedia_def handleListObjectTypes_def handleGetObjectType_def
  handleCreateObjectType_def handleUpdateObjectType_def handleDeleteObjectType_def
  handleGenerateText_def handleGenerateImage_def handleGenerateVideo_def

lemmas handler_try_defs =
  handleListObjects_try_def handleGetObject_try_def handleCreateObject_try_def
  handleUpdateObject_try_def handleDeleteObject_try_def handleListMedia_try_def
  handleGetMedia_try_def handleUploadMedia_try_def handleDeleteMedia_try_def
  handleListObjectTypes_try_def handleGetObjectType_try_def handleCreateObjectType_try_def
  handleUpdateObjectType_try_def handleDeleteObjectType_try_def handleGenerateText_try_def
  handleGenerateImage_try_def handleGenerateVideo_try_def

lemmas run_defs =
  bind_def try_catch_def await_def getCosmicClient_def getConfig_def requireWriteAccess_def
  hasWriteAccess_def text_result_def error_result_def error_message_def

lemma toCallToolResult_id: "toCallToolResult result = result"
  by (simp add: toCallToolResult_def)

lemma dispatch_parsed:
  assumes "map_of switch_cases nm = Some (Parsed schema handler)"
  shows "CallToolRequest_handler rt nm args w =
    (case parse rt schema args of
       Inl error \<Rightarrow>
         (error_result (''Error executing tool '' @ nm @ '': '' @ error_message error), w)
     | Inr params \<Rightarrow> handler rt params w)"
  using assms
  by (simp add: CallToolRequest_handler_def CallToolRequest_try_def run_case_def
      toCallToolResult_id split: sum.splits prod.splits)

lemma dispatch_unparsed:
  assumes "map_of switch_cases nm = Some (Unparsed handler)"
  shows "CallToolRequest_handler rt nm args w = handler rt w"
  using assms
  by (simp add: CallToolRequest_handler_def CallToolRequest_try_def run_case_def
      toCallToolResult_id split: sum.splits prod.splits)

lemma client_available:
  assumes "fst (getCosmicClient w) = Inr cosmic"
  obtains w1 where "getCosmicClient w = (Inr cosmic, w1)" and "calls w1 = calls w"
    and "env w1 = env w"
  using assms
  by (auto simp: getCosmicClient_def split: option.splits sum.splits)

lemma write_granted: "hasWriteAccess (env w) \<Longrightarrow> requireWriteAccess w = (Inr (), w)"
  by (simp add: requireWriteAccess_def)

section \<open>The write guard\<close>

text \<open>
  Every write-class handler calls \<open>requireWriteAccess\<close> first. Without a write key the
  guard throws, the handler's own \<open>catch\<close> turns the error into its envelope, and the
  world is the one the handler started in.
\<close>

lemma write_handlers_denied:
  assumes "\<not> hasWriteAccess (env w)"
  shows "handleCreateObject rt params w = (error_result ''Error creating object: Write operations require COSMIC_WRITE_KEY environment variable to be set'', w)"
    and "handleUpdateObject rt params w = (error_result ''Error updating object: Write operations require COSMIC_WRITE_KEY environment variable to be set'', w)"
    and "handleDeleteObject rt params w = (error_result ''Error deleting object: Write operations require COSMIC_WRITE_KEY environment variable to be set'', w)"
    and "handleUploadMedia rt params w = (error_result ''Error uploading media: Write operations require COSMIC_WRITE_KEY environment variable to be set'', w)"
    and "handleDeleteMedia rt params w = (error_result ''Error deleting media: Write operations require COSMIC_WRITE_KEY environment variable to be set'', w)"
    and "handleCreateObjectType rt params w = (error_result ''Error creating object type: Write operations require COSMIC_WRITE_KEY environment variable to be set'', w)"
    and "handleUpdateObjectType rt params w = (error_result ''Error updating object type: Write operations require COSMIC_WRITE_KEY environment variable to be set'', w)"
    and "handleDeleteObjectType rt params w = (error_result ''Error deleting object type: Write operations require COSMIC_WRITE_KEY environment variable to be set'', w)"
    and "handleGenerateImage rt params w = (error_result ''Error generating image: Write operations require COSMIC_WRITE_KEY environment variable to be set'', w)"
    and "handleGenerateVideo rt params w = (error_result ''Error generating video: Write operations require COSMIC_WRITE_KEY environment variable to be set'', w)"
  using assms
  by (simp_all add: handler_defs handler_try_defs requireWriteAccess_def bind_def try_catch_def
      error_message_def)

text \<open>
  Claim C1. Without a write credential (the variable is unset or empty), each of the ten
  write-class tools is dispatched to a handler that, on any parameters, returns an error
  envelope carrying the guard's message and leaves the world unchanged: no client is
  created and no backend operation is issued. The same holds for the whole call, on any
  raw arguments, since a parse failure is an error envelope as well.
\<close>

theorem write_guard:
  assumes "\<not> hasWriteAccess (env w)"
    and "nm \<in> set [''cosmic_objects_create'', ''cosmic_objects_update'', ''cosmic_objects_delete'',
                   ''cosmic_media_upload'', ''cosmic_media_delete'',
                   ''cosmic_types_create'', ''cosmic_types_update'', ''cosmic_types_delete'',
                   ''cosmic_ai_generate_image'', ''cosmic_ai_generate_video'']"
  shows "\<exists>schema handler label.
           map_of switch_cases nm = Some (Parsed schema handler) \<and>
           (\<forall>params. handler rt params w =
              (\<lparr>content = [label @ ''Write operations require COSMIC_WRITE_KEY environment variable to be set''],
                isError = Some True\<rparr>, w)) \<and>
           (\<forall>args. isError (fst (CallToolRequest_handler rt nm args w)) = Some True \<and>
                   snd (CallToolRequest_handler rt nm args w) = w)"
proof -
  have step: "\<exists>schema handler label.
           map_of switch_cases nm = Some (Parsed schema handler) \<and>
           (\<forall>params. handler rt params w =
              (\<lparr>content = [label @ ''Write operations require COSMIC_WRITE_KEY environment variable to be set''],
                isError = Some True\<rparr>, w)) \<and>
           (\<forall>args. isError (fst (CallToolRequest_handler rt nm args w)) = Some True \<and>
                   snd (CallToolRequest_handler rt nm args w) = w)"
    if c: "map_of switch_cases nm = Some (Parsed schema handler)"
      and d: "\<And>params. handler rt params w =
        (error_result (label @ ''Write operations require COSMIC_WRITE_KEY environment variable to be set''), w)"
    for schema handler label
  proof -
    have e: "isError (fst (CallToolRequest_handler rt nm args w)) = Some True \<and>
          snd (CallToolRequest_handler rt nm args w) = w" for args
      by (simp add: dispatch_parsed [OF c] d error_result_def split: sum.splits)
    have d': "handler rt params w =
        (\<lparr>content = [label @ ''Write operations require COSMIC_WRITE_KEY environment variable to be set''],
          isError = Some True\<rparr>, w)" for params
      using d [of params] unfolding error_result_def .
    show ?thesis
      apply (intro exI conjI allI)
         apply (rule c)
        apply (rule d')
       apply (rule e [THEN conjunct1])
      apply (rule e [THEN conjunct2])
      done
  qed
  from assms(2) have
    "nm = ''cosmic_objects_create'' \<or> nm = ''cosmic_objects_update'' \<or>
     nm = ''cosmic_objects_delete'' \<or> nm = ''cosmic_media_upload'' \<or>
     nm = ''cosmic_media_delete'' \<or> nm = ''cosmic_types_create'' \<or>
     nm = ''cosmic_types_update'' \<or> nm = ''cosmic_types_delete'' \<or>
     nm = ''cosmic_ai_generate_image'' \<or> nm = ''cosmic_ai_generate_video''"
    by simp
  then show ?thesis
  proof (elim disjE)
    assume n: "nm = ''cosmic_objects_create''"
    have c: "map_of switch_cases nm = Some (Parsed createObjectSchema handleCreateObject)"
      by (simp add: n switch_cases_def)
    show ?thesis
      by (rule step [OF c, of "''Error creating object: ''"]) (simp add: write_handlers_denied [OF assms(1)])
  next
    assume n: "nm = ''cosmic_objects_update''"
    have c: "map_of switch_cases nm = Some (Parsed updateObjectSchema handleUpdateObject)"
      by (simp add: n switch_cases_def)
    show ?thesis
      by (rule step [OF c, of "''Error updating object: ''"]) (simp add: write_handlers_denied [OF assms(1)])
  next
    assume n: "nm = ''cosmic_objects_delete''"
    have c: "map_of switch_cases nm = Some (Parsed deleteObjectSchema handleDeleteObject)"
      by (simp add: n switch_cases_def)
    show ?thesis
      by (rule step [OF c, of "''Error deleting object: ''"]) (simp add: write_handlers_denied [OF assms(1)])
  next
    assume n: "nm = ''cosmic_media_upload''"
    have c: "map_of switch_cases nm = Some (Parsed uploadMediaSchema handleUploadMedia)"
      by (simp add: n switch_cases_def)
    show ?thesis
      by (rule step [OF c, of "''Error uploading media: ''"]) (simp add: write_handlers_denied [OF assms(1)])
  next
    assume n: "nm = ''cosmic_media_delete''"
    have c: "map_of switch_cases nm = Some (Parsed deleteMediaSchema handleDeleteMedia)"
      by (simp add: n switch_cases_def)
    show ?thesis
      by (rule step [OF c, of "''Error deleting media: ''"]) (simp add: write_handlers_denied [OF assms(1)])
  next
    assume n: "nm = ''cosmic_types_create''"
    have c: "map_of switch_cases nm = Some (Parsed createObjectTypeSchema handleCreateObjectType)"
      by (simp add: n switch_cases_def)
    show ?thesis
      by (rule step [OF c, of "''Error creating object type: ''"]) (simp add: write_handlers_denied [OF assms(1)])
  next
    assume n: "nm = ''cosmic_types_update''"
    have c: "map_of switch_cases nm = Some (Parsed updateObjectTypeSchema handleUpdateObjectType)"
      by (simp add: n switch_cases_def)
    show ?thesis
      by (rule step [OF c, of "''Error updating object type: ''"]) (simp add: write_handlers_denied [OF assms(1)])
  next
    assume n: "nm = ''cosmic_types_delete''"
    have c: "map_of switch_cases nm = Some (Parsed deleteObjectTypeSchema handleDeleteObjectType)"
      by (simp add: n switch_cases_def)
    show ?thesis
      by (rule step [OF c, of "''Error deleting object type: ''"]) (simp add: write_handlers_denied [OF assms(1)])
  next
    assume n: "nm = ''cosmic_ai_generate_image''"
    have c: "map_of switch_cases nm = Some (Parsed generateImageSchema handleGenerateImage)"
      by (simp add: n switch_cases_def)
    show ?thesis
      by (rule step [OF c, of "''Error generating image: ''"]) (simp add: write_handlers_denied [OF assms(1)])
  next
    assume n: "nm = ''cosmic_ai_generate_video''"
    have c: "map_of switch_cases nm = Some (Parsed generateVideoSchema handleGenerateVideo)"
      by (simp add: n switch_cases_def)
    show ?thesis
      by (rule step [OF c, of "''Error generating video: ''"]) (simp add: write_handlers_denied [OF assms(1)])
  qed
qed

theorem write_guard_witness:
  "\<not> hasWriteAccess (env readonly_world) \<and>
   isError (fst (CallToolRequest_handler demo_runtime ''cosmic_objects_delete''
                   (JObj [(''id'', JStr ''x'')]) readonly_world)) = Some True \<and>
   snd (CallToolRequest_handler demo_runtime ''cosmic_objects_delete''
          (JObj [(''id'', JStr ''x'')]) readonly_world) = readonly_world \<and>
   calls readonly_world = []"
proof -
  have h: "\<not> hasWriteAccess (env readonly_world)"
    by (simp add: hasWriteAccess_def readonly_world_def)
  have n: "''cosmic_objects_delete'' \<in> set [''cosmic_objects_create'', ''cosmic_objects_update'', ''cosmic_objects_delete'',
                   ''cosmic_media_upload'', ''cosmic_media_delete'',
                   ''cosmic_types_create'', ''cosmic_types_update'', ''cosmic_types_delete'',
                   ''cosmic_ai_generate_image'', ''cosmic_ai_generate_video'']"
    by simp
  from write_guard [OF h n, of demo_runtime] have
    "isError (fst (CallToolRequest_handler demo_runtime ''cosmic_objects_delete''
                   (JObj [(''id'', JStr ''x'')]) readonly_world)) = Some True \<and>
     snd (CallToolRequest_handler demo_runtime ''cosmic_objects_delete''
          (JObj [(''id'', JStr ''x'')]) readonly_world) = readonly_world"
    by blast
  with h show ?thesis
    by (simp add: readonly_world_def)
qed

section \<open>Issuing one operation\<close>

lemma bind_simps:
  "bind (Inl error, w) f = (Inl error, w)"
  "bind (Inr x, w) f = f x w"
  by (simp_all add: bind_def)

text \<open>
  The last step of every handler: the operation is awaited, the response is turned into
  a result, and the handler's \<open>catch\<close> takes what was thrown. Whatever the backend
  answers, the world afterwards is the world before with the operation recorded.
\<close>

lemma issue_one:
  "snd (try_catch (bind (await rt cosmic request w) (\<lambda>response w'. (Inr (f response), w'))) label)
     = w\<lparr>calls := calls w @ [request]\<rparr>"
  by (simp add: try_catch_def bind_def await_def split: sum.splits)

section \<open>Getting an object\<close>

lemma getObject_neither:
  assumes "\<not> truthy (get_prop params ''id'')" and "\<not> truthy (get_prop params ''slug'')"
  shows "handleGetObject rt params w =
    (error_result ''Error: Either id or slug must be provided'', w)"
  using assms by (simp add: handleGetObject_def handleGetObject_try_def try_catch_def)

lemma getObject_slug_without_type:
  assumes "truthy (get_prop params ''slug'')" and "\<not> truthy (get_prop params ''type'')"
  shows "handleGetObject rt params w =
    (error_result ''Error: type is required when using slug to get an object'', w)"
  using assms by (simp add: handleGetObject_def handleGetObject_try_def try_catch_def)

lemma getObject_by_id:
  assumes "truthy (get_prop params ''id'')"
    and "truthy (get_prop params ''slug'') \<longrightarrow> truthy (get_prop params ''type'')"
    and "fst (getCosmicClient w) = Inr cosmic"
  shows "calls (snd (handleGetObject rt params w)) =
    calls w @
    [Call ''objects'' ''findOne'' [JObj [(''id'', get_prop params ''id'')]]
       ((if truthy (get_prop params ''props'') then [(''props'', get_prop params ''props'')] else []) @
        (if truthy (get_prop params ''status'') then [(''status'', get_prop params ''status'')] else []))]"
proof -
  from assms(3) obtain w1 where "getCosmicClient w = (Inr cosmic, w1)" and "calls w1 = calls w"
    by (rule client_available)
  with assms(1,2) show ?thesis
    by (cases "truthy (get_prop params ''slug'')")
      (simp_all add: handleGetObject_def handleGetObject_try_def bind_simps issue_one Let_def)
qed

lemma getObject_id_only:
  assumes "truthy (get_prop params ''id'')"
    and "truthy (get_prop params ''slug'') \<longrightarrow> truthy (get_prop params ''type'')"
  shows "handleGetObject rt params w =
    handleGetObject rt
      (JObj [(''id'', get_prop params ''id''), (''props'', get_prop params ''props''),
             (''status'', get_prop params ''status'')]) w"
  using assms
  by (cases "truthy (get_prop params ''slug'')")
    (simp_all add: handleGetObject_def handleGetObject_try_def Let_def)

lemma get_case: "map_of switch_cases ''cosmic_objects_get'' = Some (Parsed getObjectSchema handleGetObject)"
  by (simp add: switch_cases_def)

text \<open>
  Claim C2, as stated, fails: a call that supplies \<open>id\<close>, \<open>slug\<close> and \<open>type\<close> passes
  validation, is not rejected, and the object is fetched from the backend by its id.
\<close>

theorem get_object_both_counterexample:
  "isError (fst (CallToolRequest_handler demo_runtime ''cosmic_objects_get''
      (JObj [(''id'', JStr ''a''), (''slug'', JStr ''b''), (''type'', JStr ''c'')]) demo_world)) = None
   \<and> calls (snd (CallToolRequest_handler demo_runtime ''cosmic_objects_get''
      (JObj [(''id'', JStr ''a''), (''slug'', JStr ''b''), (''type'', JStr ''c'')]) demo_world))
     = [Call ''objects'' ''findOne'' [JObj [(''id'', JStr ''a'')]] [(''status'', JStr ''any'')]]"
proof -
  have p: "parse demo_runtime getObjectSchema
      (JObj [(''id'', JStr ''a''), (''slug'', JStr ''b''), (''type'', JStr ''c'')])
    = Inr (JObj [(''id'', JStr ''a''), (''slug'', JStr ''b''), (''type'', JStr ''c''),
                 (''status'', JStr ''any'')])"
    by (simp add: parse_def getObjectSchema_def kept_def)
  have d: "CallToolRequest_handler demo_runtime ''cosmic_objects_get''
      (JObj [(''id'', JStr ''a''), (''slug'', JStr ''b''), (''type'', JStr ''c'')]) demo_world
    = handleGetObject demo_runtime
        (JObj [(''id'', JStr ''a''), (''slug'', JStr ''b''), (''type'', JStr ''c''),
               (''status'', JStr ''any'')]) demo_world"
    by (simp add: dispatch_parsed [OF get_case] p)
  show ?thesis
    unfolding d
    by (simp add: handleGetObject_def handleGetObject_try_def run_defs demo_runtime_def
        demo_world_def)
qed

text \<open>
  Claim C2, amended. \<open>cosmic_objects_get\<close> returns an error envelope, and leaves the world
  as it was, when neither \<open>id\<close> nor \<open>slug\<close> is a non-empty string, and when \<open>slug\<close> is
  non-empty while \<open>type\<close> is missing or empty (whether or not \<open>id\<close> is given). A call
  with \<open>id\<close>, \<open>slug\<close> and \<open>type\<close> all non-empty is not rejected: with a client
  available, exactly one operation is issued, a \<open>findOne\<close> on the id.
\<close>

theorem get_object_preconditions:
  "(\<not> truthy (get_prop params ''id'') \<and> \<not> truthy (get_prop params ''slug'') \<longrightarrow>
      handleGetObject rt params w =
        (\<lparr>content = [''Error: Either id or slug must be provided''], isError = Some True\<rparr>, w))
   \<and> (truthy (get_prop params ''slug'') \<and> \<not> truthy (get_prop params ''type'') \<longrightarrow>
      handleGetObject rt params w =
        (\<lparr>content = [''Error: type is required when using slug to get an object''],
          isError = Some True\<rparr>, w))
   \<and> (truthy (get_prop params ''id'') \<and> truthy (get_prop params ''slug'') \<and>
       truthy (get_prop params ''type'') \<and> fst (getCosmicClient w) = Inr cosmic \<longrightarrow>
      (\<exists>refiners. calls (snd (handleGetObject rt params w)) =
         calls w @ [Call ''objects'' ''findOne'' [JObj [(''id'', get_prop params ''id'')]] refiners]))"
proof (intro conjI impI)
  assume "\<not> truthy (get_prop params ''id'') \<and> \<not> truthy (get_prop params ''slug'')"
  then show "handleGetObject rt params w =
      (\<lparr>content = [''Error: Either id or slug must be provided''], isError = Some True\<rparr>, w)"
    by (simp add: getObject_neither error_result_def)
next
  assume "truthy (get_prop params ''slug'') \<and> \<not> truthy (get_prop params ''type'')"
  then show "handleGetObject rt params w =
      (\<lparr>content = [''Error: type is required when using slug to get an object''],
        isError = Some True\<rparr>, w)"
    by (simp add: getObject_slug_without_type error_result_def)
next
  assume a: "truthy (get_prop params ''id'') \<and> truthy (get_prop params ''slug'') \<and>
       truthy (get_prop params ''type'') \<and> fst (getCosmicClient w) = Inr cosmic"
  then have "calls (snd (handleGetObject rt params w)) =
    calls w @
    [Call ''objects'' ''findOne'' [JObj [(''id'', get_prop params ''id'')]]
       ((if truthy (get_prop params ''props'') then [(''props'', get_prop params ''props'')] else []) @
        (if truthy (get_prop params ''status'') then [(''status'', get_prop params ''status'')] else []))]"
    by (intro getObject_by_id) simp_all
  then show "\<exists>refiners. calls (snd (handleGetObject rt params w)) =
         calls w @ [Call ''objects'' ''findOne'' [JObj [(''id'', get_prop params ''id'')]] refiners]"
    by (rule exI)
qed

theorem get_object_preconditions_witness:
  "handleGetObject demo_runtime (JObj [(''status'', JStr ''any'')]) demo_world =
     (\<lparr>content = [''Error: Either id or slug must be provided''], isError = Some True\<rparr>, demo_world)
   \<and> handleGetObject demo_runtime (JObj [(''slug'', JStr ''hello''), (''status'', JStr ''any'')]) demo_world =
     (\<lparr>content = [''Error: type is required when using slug to get an object''],
       isError = Some True\<rparr>, demo_world)"
  using get_object_preconditions [of "JObj [(''status'', JStr ''any'')]" demo_runtime demo_world]
    get_object_preconditions [of "JObj [(''slug'', JStr ''hello''), (''status'', JStr ''any'')]"
      demo_runtime demo_world]
  by simp

text \<open>
  Claim C10, as stated, fails in the case without \<open>type\<close>: a call with \<open>id\<close> and \<open>slug\<close>
  but no \<open>type\<close> is rejected with the type-is-required envelope, and nothing is asked of
  the backend.
\<close>

theorem get_object_id_slug_counterexample:
  "CallToolRequest_handler demo_runtime ''cosmic_objects_get''
      (JObj [(''id'', JStr ''a''), (''slug'', JStr ''b'')]) demo_world
   = (\<lparr>content = [''Error: type is required when using slug to get an object''],
       isError = Some True\<rparr>, demo_world)"
proof -
  have p: "parse demo_runtime getObjectSchema (JObj [(''id'', JStr ''a''), (''slug'', JStr ''b'')])
    = Inr (JObj [(''id'', JStr ''a''), (''slug'', JStr ''b''), (''status'', JStr ''any'')])"
    by (simp add: parse_def getObjectSchema_def kept_def)
  show ?thesis
    by (simp add: dispatch_parsed [OF get_case] p getObject_slug_without_type error_result_def)
qed

text \<open>
  Claim C10, amended. When \<open>id\<close>, \<open>slug\<close> and \<open>type\<close> are all supplied (non-empty), the
  handler does not reject the call: it behaves exactly as on the parameters with \<open>slug\<close>
  and \<open>type\<close> removed, and with a client available the one operation it issues is the
  \<open>findOne\<close> on the id, refined by \<open>props\<close> and \<open>status\<close> only. When \<open>id\<close> and \<open>slug\<close>
  are supplied without \<open>type\<close>, the call is rejected with the type-is-required envelope.
\<close>

theorem get_object_by_id_only:
  "(truthy (get_prop params ''id'') \<and> truthy (get_prop params ''slug'') \<and>
    truthy (get_prop params ''type'') \<longrightarrow>
      handleGetObject rt params w =
        handleGetObject rt
          (JObj [(''id'', get_prop params ''id''), (''props'', get_prop params ''props''),
                 (''status'', get_prop params ''status'')]) w
      \<and> (fst (getCosmicClient w) = Inr cosmic \<longrightarrow>
           calls (snd (handleGetObject rt params w)) =
             calls w @
             [Call ''objects'' ''findOne'' [JObj [(''id'', get_prop params ''id'')]]
                ((if truthy (get_prop params ''props'')
                  then [(''props'', get_prop params ''props'')] else []) @
                 (if truthy (get_prop params ''status'')
                  then [(''status'', get_prop params ''status'')] else []))]))
   \<and> (truthy (get_prop params ''id'') \<and> truthy (get_prop params ''slug'') \<and>
      \<not> truthy (get_prop params ''type'') \<longrightarrow>
      handleGetObject rt params w =
        (\<lparr>content = [''Error: type is required when using slug to get an object''],
          isError = Some True\<rparr>, w))"
  using getObject_id_only [of params rt w] getObject_by_id [of params w cosmic rt]
    getObject_slug_without_type [of params rt w]
  by (simp add: error_result_def)

theorem get_object_by_id_only_witness:
  "calls (snd (handleGetObject demo_runtime
      (JObj [(''id'', JStr ''a''), (''slug'', JStr ''b''), (''type'', JStr ''c''),
             (''status'', JStr ''any'')]) demo_world))
    = [Call ''objects'' ''findOne'' [JObj [(''id'', JStr ''a'')]] [(''status'', JStr ''any'')]]
   \<and> handleGetObject demo_runtime
      (JObj [(''id'', JStr ''a''), (''slug'', JStr ''b''), (''status'', JStr ''any'')]) demo_world
    = (\<lparr>content = [''Error: type is required when using slug to get an object''],
        isError = Some True\<rparr>, demo_world)"
proof -
  let ?with_type = "JObj [(''id'', JStr ''a''), (''slug'', JStr ''b''), (''type'', JStr ''c''),
    (''status'', JStr ''any'')]"
  let ?without_type = "JObj [(''id'', JStr ''a''), (''slug'', JStr ''b''), (''status'', JStr ''any'')]"
  let ?client = "\<lparr>bucketSlug = ''my-bucket'', readKey = ''read-key'', writeKey = Some ''write-key''\<rparr>"
  have c: "fst (getCosmicClient demo_world) = Inr ?client"
    by (simp add: getCosmicClient_def getConfig_def demo_world_def)
  have a: "truthy (get_prop ?with_type ''id'') \<and> truthy (get_prop ?with_type ''slug'') \<and>
    truthy (get_prop ?with_type ''type'')"
    by simp
  have b: "truthy (get_prop ?without_type ''id'') \<and> truthy (get_prop ?without_type ''slug'') \<and>
    \<not> truthy (get_prop ?without_type ''type'')"
    by simp
  have 1: "calls (snd (handleGetObject demo_runtime ?with_type demo_world))
    = [Call ''objects'' ''findOne'' [JObj [(''id'', JStr ''a'')]] [(''status'', JStr ''any'')]]"
    using get_object_by_id_only [of ?with_type demo_runtime demo_world ?client,
        THEN conjunct1, THEN mp, OF a, THEN conjunct2, THEN mp, OF c]
    by (simp add: demo_world_def)
  have 2: "handleGetObject demo_runtime ?without_type demo_world
    = (\<lparr>content = [''Error: type is required when using slug to get an object''],
        isError = Some True\<rparr>, demo_world)"
    using get_object_by_id_only [of ?without_type demo_runtime demo_world ?client,
        THEN conjunct2, THEN mp, OF b] .
  from 1 2 show ?thesis
    by (rule conjI)
qed

section \<open>The dispatcher\<close>

lemma try_throws:
  "CallToolRequest_try rt nm args w = (Inl error, w') \<longleftrightarrow>
   (\<exists>schema handler. map_of switch_cases nm = Some (Parsed schema handler) \<and>
      parse rt schema args = Inl error \<and> w' = w)"
  by (auto simp: CallToolRequest_try_def run_case_def
      split: option.splits tool_case.splits sum.splits prod.splits)

text \<open>
  Claim C4, as stated, fails for the errors thrown while a handler runs: they never reach
  the outer \<open>catch\<close>. Deleting an object without a write key makes the guard throw inside
  the handler; the handler's own \<open>catch\<close> answers, and the text of the envelope is
  \<open>Error deleting object: ...\<close>, not \<open>Error executing tool cosmic_objects_delete: ...\<close>.
\<close>

theorem handler_error_counterexample:
  "handleDeleteObject_try demo_runtime (JObj [(''id'', JStr ''x''), (''trigger_webhook'', JBool True)])
     readonly_world =
     (Inl (Error ''Write operations require COSMIC_WRITE_KEY environment variable to be set''),
      readonly_world)
   \<and> CallToolRequest_handler demo_runtime ''cosmic_objects_delete'' (JObj [(''id'', JStr ''x'')])
     readonly_world =
     (\<lparr>content = [''Error deleting object: Write operations require COSMIC_WRITE_KEY environment variable to be set''],
       isError = Some True\<rparr>, readonly_world)"
proof -
  have h: "\<not> hasWriteAccess (env readonly_world)"
    by (simp add: hasWriteAccess_def readonly_world_def)
  have c: "map_of switch_cases ''cosmic_objects_delete'' =
      Some (Parsed deleteObjectSchema handleDeleteObject)"
    by (simp add: switch_cases_def)
  have p: "parse demo_runtime deleteObjectSchema (JObj [(''id'', JStr ''x'')]) =
      Inr (JObj [(''id'', JStr ''x''), (''trigger_webhook'', JBool True)])"
    by (simp add: parse_def deleteObjectSchema_def kept_def)
  have 1: "handleDeleteObject_try demo_runtime
      (JObj [(''id'', JStr ''x''), (''trigger_webhook'', JBool True)]) readonly_world =
     (Inl (Error ''Write operations require COSMIC_WRITE_KEY environment variable to be set''),
      readonly_world)"
    using h by (simp add: handleDeleteObject_try_def requireWriteAccess_def bind_simps)
  have 2: "CallToolRequest_handler demo_runtime ''cosmic_objects_delete'' (JObj [(''id'', JStr ''x'')])
     readonly_world =
     (\<lparr>content = [''Error deleting object: Write operations require COSMIC_WRITE_KEY environment variable to be set''],
       isError = Some True\<rparr>, readonly_world)"
    by (simp add: dispatch_parsed [OF c] p write_handlers_denied [OF h] error_result_def)
  from 1 2 show ?thesis
    by (rule conjI)
qed

text \<open>
  Claim C4, amended. Whatever the \<open>try\<close> block of the dispatcher throws, the outer \<open>catch\<close>
  returns the error envelope with the single text
  \<open>Error executing tool <name>: <message>\<close>, where the message is that of an \<open>Error\<close> and
  \<open>Unknown error\<close> for any other thrown value. What reaches the outer \<open>catch\<close> are the
  errors of argument parsing: a failed validation is answered so, the issues of the
  \<open>ZodError\<close> being the message, with the world unchanged. An error thrown while a
  handler runs is caught by the handler's own \<open>catch\<close> and returned as the envelope
  \<open><label><message>\<close> with the handler's label (\<open>Error deleting object: \<close> and so on),
  which the dispatcher passes on. The dispatcher returns an envelope on every request:
  its result has no exceptional case.
\<close>

theorem outer_catch:
  "(CallToolRequest_try rt nm args w = (Inl error, w') \<longrightarrow>
      CallToolRequest_handler rt nm args w =
        (\<lparr>content = [''Error executing tool '' @ nm @ '': '' @ error_message error],
          isError = Some True\<rparr>, w'))
   \<and> (map_of switch_cases nm = Some (Parsed schema handler) \<and> zparse schema [] args = Inl issues \<longrightarrow>
      CallToolRequest_handler rt nm args w =
        (\<lparr>content = [''Error executing tool '' @ nm @ '': '' @ ZodError_message rt issues],
          isError = Some True\<rparr>, w))
   \<and> (CallToolRequest_try rt nm args w = (Inl error, w') \<longrightarrow>
      (\<exists>schema handler. map_of switch_cases nm = Some (Parsed schema handler) \<and>
         parse rt schema args = Inl error \<and> w' = w))
   \<and> ((h, body, label) \<in> set
         [(handleListObjects, handleListObjects_try, ''Error listing objects: ''),
          (handleGetObject, handleGetObject_try, ''Error getting object: ''),
          (handleCreateObject, handleCreateObject_try, ''Error creating object: ''),
          (handleUpdateObject, handleUpdateObject_try, ''Error updating object: ''),
          (handleDeleteObject, handleDeleteObject_try, ''Error deleting object: ''),
          (handleListMedia, handleListMedia_try, ''Error listing media: ''),
          (handleGetMedia, handleGetMedia_try, ''Error getting media: ''),
          (handleUploadMedia, handleUploadMedia_try, ''Error uploading media: ''),
          (handleDeleteMedia, handleDeleteMedia_try, ''Error deleting media: ''),
          (handleGetObjectType, handleGetObjectType_try, ''Error getting object type: ''),
          (handleCreateObjectType, handleCreateObjectType_try, ''Error creating object type: ''),
          (handleUpdateObjectType, handleUpdateObjectType_try, ''Error updating object type: ''),
          (handleDeleteObjectType, handleDeleteObjectType_try, ''Error deleting object type: ''),
          (handleGenerateText, handleGenerateText_try, ''Error generating text: ''),
          (handleGenerateImage, handleGenerateImage_try, ''Error generating image: ''),
          (handleGenerateVideo, handleGenerateVideo_try, ''Error generating video: '')] \<and>
       body rt params w = (Inl error, w') \<longrightarrow>
      h rt params w = (\<lparr>content = [label @ error_message error], isError = Some True\<rparr>, w'))
   \<and> (handleListObjectTypes_try rt w = (Inl error, w') \<longrightarrow>
      handleListObjectTypes rt w =
        (\<lparr>content = [''Error listing object types: '' @ error_message error],
          isError = Some True\<rparr>, w'))
   \<and> error_message (Error m) = m \<and> error_message (NonError v) = ''Unknown error''"
proof -
  have 1: "CallToolRequest_try rt nm args w = (Inl error, w') \<longrightarrow>
      CallToolRequest_handler rt nm args w =
        (\<lparr>content = [''Error executing tool '' @ nm @ '': '' @ error_message error],
          isError = Some True\<rparr>, w')"
    by (simp add: CallToolRequest_handler_def error_result_def)
  have 2: "map_of switch_cases nm = Some (Parsed schema handler) \<and> zparse schema [] args = Inl issues \<longrightarrow>
      CallToolRequest_handler rt nm args w =
        (\<lparr>content = [''Error executing tool '' @ nm @ '': '' @ ZodError_message rt issues],
          isError = Some True\<rparr>, w)"
  proof
    assume a: "map_of switch_cases nm = Some (Parsed schema handler) \<and> zparse schema [] args = Inl issues"
    then have "parse rt schema args = Inl (Error (ZodError_message rt issues))"
      by (simp add: parse_def)
    with a show "CallToolRequest_handler rt nm args w =
        (\<lparr>content = [''Error executing tool '' @ nm @ '': '' @ ZodError_message rt issues],
          isError = Some True\<rparr>, w)"
      by (simp add: dispatch_parsed [of nm schema handler] error_result_def error_message_def)
  qed
  have 3: "CallToolRequest_try rt nm args w = (Inl error, w') \<longrightarrow>
      (\<exists>schema handler. map_of switch_cases nm = Some (Parsed schema handler) \<and>
         parse rt schema args = Inl error \<and> w' = w)"
    unfolding try_throws by (rule imp_refl)
  have 4: "(h, body, label) \<in> set
         [(handleListObjects, handleListObjects_try, ''Error listing objects: ''),
          (handleGetObject, handleGetObject_try, ''Error getting object: ''),
          (handleCreateObject, handleCreateObject_try, ''Error creating object: ''),
          (handleUpdateObject, handleUpdateObject_try, ''Error updating object: ''),
          (handleDeleteObject, handleDeleteObject_try, ''Error deleting object: ''),
          (handleListMedia, handleListMedia_try, ''Error listing media: ''),
          (handleGetMedia, handleGetMedia_try, ''Error getting media: ''),
          (handleUploadMedia, handleUploadMedia_try, ''Error uploading media: ''),
          (handleDeleteMedia, handleDeleteMedia_try, ''Error deleting media: ''),
          (handleGetObjectType, handleGetObjectType_try, ''Error getting object type: ''),
          (handleCreateObjectType, handleCreateObjectType_try, ''Error creating object type: ''),
          (handleUpdateObjectType, handleUpdateObjectType_try, ''Error updating object type: ''),
          (handleDeleteObjectType, handleDeleteObjectType_try, ''Error deleting object type: ''),
          (handleGenerateText, handleGenerateText_try, ''Error generating text: ''),
          (handleGenerateImage, handleGenerateImage_try, ''Error generating image: ''),
          (handleGenerateVideo, handleGenerateVideo_try, ''Error generating video: '')] \<and>
       body rt params w = (Inl error, w') \<longrightarrow>
      h rt params w = (\<lparr>content = [label @ error_message error], isError = Some True\<rparr>, w')"
  proof
    assume a: "(h, body, label) \<in> set
         [(handleListObjects, handleListObjects_try, ''Error listing objects: ''),
          (handleGetObject, handleGetObject_try, ''Error getting object: ''),
          (handleCreateObject, handleCreateObject_try, ''Error creating object: ''),
          (handleUpdateObject, handleUpdateObject_try, ''Error updating object: ''),
          (handleDeleteObject, handleDeleteObject_try, ''Error deleting object: ''),
          (handleListMedia, handleListMedia_try, ''Error listing media: ''),
          (handleGetMedia, handleGetMedia_try, ''Error getting media: ''),
          (handleUploadMedia, handleUploadMedia_try, ''Error uploading media: ''),
          (handleDeleteMedia, handleDeleteMedia_try, ''Error deleting media: ''),
          (handleGetObjectType, handleGetObjectType_try, ''Error getting object type: ''),
          (handleCreateObjectType, handleCreateObjectType_try, ''Error creating object type: ''),
          (handleUpdateObjectType, handleUpdateObjectType_try, ''Error updating object type: ''),
          (handleDeleteObjectType, handleDeleteObjectType_try, ''Error deleting object type: ''),
          (handleGenerateText, handleGenerateText_try, ''Error generating text: ''),
          (handleGenerateImage, handleGenerateImage_try, ''Error generating image: ''),
          (handleGenerateVideo, handleGenerateVideo_try, ''Error generating video: '')] \<and>
       body rt params w = (Inl error, w')"
    then have b: "body rt params w = (Inl error, w')"
      by (rule conjunct2)
    from a have "h rt params w = try_catch (body rt params w) label"
      unfolding set_simps insert_iff empty_iff prod.inject handler_defs
      by (elim conjE disjE) simp_all
    with b show "h rt params w =
        (\<lparr>content = [label @ error_message error], isError = Some True\<rparr>, w')"
      by (simp add: try_catch_def error_result_def)
  qed
  have 5: "handleListObjectTypes_try rt w = (Inl error, w') \<longrightarrow>
      handleListObjectTypes rt w =
        (\<lparr>content = [''Error listing object types: '' @ error_message error],
          isError = Some True\<rparr>, w')"
    by (simp add: handleListObjectTypes_def try_catch_def error_result_def)
  have 6: "error_message (Error m) = m" "error_message (NonError v) = ''Unknown error''"
    by (simp_all add: error_message_def)
  from 1 2 3 4 5 6 show ?thesis
    by (intro conjI)
qed

theorem outer_catch_witness:
  "map_of switch_cases ''cosmic_objects_list'' = Some (Parsed listObjectsSchema handleListObjects)
   \<and> zparse listObjectsSchema [] (JObj [(''limit'', JNum 500)]) = Inl [too_big [Key ''limit''] 100]
   \<and> CallToolRequest_handler demo_runtime ''cosmic_objects_list'' (JObj [(''limit'', JNum 500)])
        demo_world =
      (\<lparr>content = [''Error executing tool cosmic_objects_list: invalid arguments''],
        isError = Some True\<rparr>, demo_world)"
proof -
  have c: "map_of switch_cases ''cosmic_objects_list'' =
      Some (Parsed listObjectsSchema handleListObjects)"
    by (simp add: switch_cases_def)
  have z: "zparse listObjectsSchema [] (JObj [(''limit'', JNum 500)]) =
      Inl [too_big [Key ''limit''] 100]"
    by (simp add: listObjectsSchema_def number_checks_def)
  have "CallToolRequest_handler demo_runtime ''cosmic_objects_list''
      (JObj [(''limit'', JNum 500)]) demo_world =
      (\<lparr>content = [''Error executing tool cosmic_objects_list: invalid arguments''],
        isError = Some True\<rparr>, demo_world)"
    using outer_catch [of demo_runtime "''cosmic_objects_list''" "JObj [(''limit'', JNum 500)]"
        demo_world _ _ listObjectsSchema handleListObjects "[too_big [Key ''limit''] 100]",
        THEN conjunct2, THEN conjunct1, THEN mp, OF conjI, OF c z]
    by (simp add: demo_runtime_def)
  with c z show ?thesis
    by (intro conjI)
qed

section \<open>Validation before the handler\<close>

lemma parsed_cases:
  assumes "nm \<in> set (map name allTools)" and "nm \<noteq> ''cosmic_types_list''"
  shows "\<exists>schema handler. map_of switch_cases nm = Some (Parsed schema handler)"
proof -
  from assms have
    "nm = ''cosmic_objects_list'' \<or> nm = ''cosmic_objects_get'' \<or>
     nm = ''cosmic_objects_create'' \<or> nm = ''cosmic_objects_update'' \<or>
     nm = ''cosmic_objects_delete'' \<or> nm = ''cosmic_media_list'' \<or>
     nm = ''cosmic_media_get'' \<or> nm = ''cosmic_media_upload'' \<or>
     nm = ''cosmic_media_delete'' \<or> nm = ''cosmic_types_get'' \<or>
     nm = ''cosmic_types_create'' \<or> nm = ''cosmic_types_update'' \<or>
     nm = ''cosmic_types_delete'' \<or> nm = ''cosmic_ai_generate_text'' \<or>
     nm = ''cosmic_ai_generate_image'' \<or> nm = ''cosmic_ai_generate_video''"
    unfolding tool_names by simp
  then show ?thesis
    by (elim disjE) (simp_all add: switch_cases_def)
qed

text \<open>
  Claim C8, as stated, fails for \<open>cosmic_types_list\<close>: its case calls the handler without
  parsing. A call without arguments, which the tool's schema rejects, is served all the
  same, and the backend is asked for the object types.
\<close>

theorem types_list_unparsed_counterexample:
  "parse demo_runtime listObjectTypesSchema JUndefined = Inl (Error ''invalid arguments'')
   \<and> isError (fst (CallToolRequest_handler demo_runtime ''cosmic_types_list'' JUndefined
                     demo_world)) = None
   \<and> calls (snd (CallToolRequest_handler demo_runtime ''cosmic_types_list'' JUndefined
                   demo_world)) = [Call ''objectTypes'' ''find'' [] []]"
proof -
  have c: "map_of switch_cases ''cosmic_types_list'' = Some (Unparsed handleListObjectTypes)"
    by (simp add: switch_cases_def)
  have p: "parse demo_runtime listObjectTypesSchema JUndefined = Inl (Error ''invalid arguments'')"
    by (simp add: parse_def listObjectTypesSchema_def demo_runtime_def)
  have "CallToolRequest_handler demo_runtime ''cosmic_types_list'' JUndefined demo_world =
      (\<lparr>content = [''{}''], isError = None\<rparr>,
       demo_world\<lparr>cosmicClient :=
           Some \<lparr>bucketSlug = ''my-bucket'', readKey = ''read-key'', writeKey = Some ''write-key''\<rparr>,
         calls := [Call ''objectTypes'' ''find'' [] []]\<rparr>)"
    by (simp add: dispatch_unparsed [OF c] handleListObjectTypes_def
        handleListObjectTypes_try_def run_defs demo_runtime_def demo_world_def)
  with p show ?thesis
    by simp
qed

text \<open>
  Claim C8, amended. For every listed tool other than \<open>cosmic_types_list\<close> the dispatcher
  parses the raw arguments with the schema of the tool's case and calls the handler
  only on the parsed parameters; when parsing fails the handler is not called and the
  error goes to the outer \<open>catch\<close>. For \<open>cosmic_types_list\<close> the arguments are not
  parsed: the handler takes no parameters and is called whatever the arguments are.
\<close>

theorem arguments_parsed:
  "(nm \<in> set (map name allTools) \<and> nm \<noteq> ''cosmic_types_list'' \<longrightarrow>
      (\<exists>schema handler.
         map_of switch_cases nm = Some (Parsed schema handler) \<and>
         (\<forall>args w. CallToolRequest_handler rt nm args w =
            (case parse rt schema args of
               Inl error \<Rightarrow>
                 (\<lparr>content = [''Error executing tool '' @ nm @ '': '' @ error_message error],
                   isError = Some True\<rparr>, w)
             | Inr params \<Rightarrow> handler rt params w))))
   \<and> (\<forall>args w. CallToolRequest_handler rt ''cosmic_types_list'' args w =
         handleListObjectTypes rt w)"
proof (intro conjI impI allI)
  assume "nm \<in> set (map name allTools) \<and> nm \<noteq> ''cosmic_types_list''"
  then obtain schema handler where c: "map_of switch_cases nm = Some (Parsed schema handler)"
    using parsed_cases [of nm] by blast
  have "CallToolRequest_handler rt nm args w =
      (case parse rt schema args of
         Inl error \<Rightarrow>
           (\<lparr>content = [''Error executing tool '' @ nm @ '': '' @ error_message error],
             isError = Some True\<rparr>, w)
       | Inr params \<Rightarrow> handler rt params w)" for args w
    by (simp add: dispatch_parsed [OF c] error_result_def split: sum.splits)
  with c show "\<exists>schema handler.
         map_of switch_cases nm = Some (Parsed schema handler) \<and>
         (\<forall>args w. CallToolRequest_handler rt nm args w =
            (case parse rt schema args of
               Inl error \<Rightarrow>
                 (\<lparr>content = [''Error executing tool '' @ nm @ '': '' @ error_message error],
                   isError = Some True\<rparr>, w)
             | Inr params \<Rightarrow> handler rt params w))"
    by blast
next
  fix args w
  have "map_of switch_cases ''cosmic_types_list'' = Some (Unparsed handleListObjectTypes)"
    by (simp add: switch_cases_def)
  then show "CallToolRequest_handler rt ''cosmic_types_list'' args w = handleListObjectTypes rt w"
    by (rule dispatch_unparsed)
qed

theorem arguments_parsed_witness:
  "''cosmic_media_get'' \<in> set (map name allTools)
   \<and> CallToolRequest_handler demo_runtime ''cosmic_media_get'' (JObj []) demo_world =
      (\<lparr>content = [''Error executing tool cosmic_media_get: invalid arguments''],
        isError = Some True\<rparr>, demo_world)
   \<and> calls (snd (CallToolRequest_handler demo_runtime ''cosmic_media_get''
                   (JObj [(''id'', JStr ''m1''), (''extra'', JNull)]) demo_world)) =
      [Call ''media'' ''findOne'' [JObj [(''id'', JStr ''m1'')]] []]"
proof -
  have n: "''cosmic_media_get'' \<in> set (map name allTools) \<and>
      ''cosmic_media_get'' \<noteq> ''cosmic_types_list''"
    unfolding tool_names by simp
  have c: "map_of switch_cases ''cosmic_media_get'' = Some (Parsed getMediaSchema handleGetMedia)"
    by (simp add: switch_cases_def)
  from arguments_parsed [of "''cosmic_media_get''" demo_runtime, THEN conjunct1, THEN mp, OF n]
  have d: "CallToolRequest_handler demo_runtime ''cosmic_media_get'' args w =
      (case parse demo_runtime getMediaSchema args of
         Inl error \<Rightarrow>
           (\<lparr>content = [''Error executing tool '' @ ''cosmic_media_get'' @ '': '' @ error_message error],
             isError = Some True\<rparr>, w)
       | Inr params \<Rightarrow> handleGetMedia demo_runtime params w)" for args w
    by (simp add: c)
  have p1: "parse demo_runtime getMediaSchema (JObj []) = Inl (Error ''invalid arguments'')"
    by (simp add: parse_def getMediaSchema_def demo_runtime_def)
  have p2: "parse demo_runtime getMediaSchema (JObj [(''id'', JStr ''m1''), (''extra'', JNull)]) =
      Inr (JObj [(''id'', JStr ''m1'')])"
    by (simp add: parse_def getMediaSchema_def kept_def)
  have 1: "CallToolRequest_handler demo_runtime ''cosmic_media_get'' (JObj []) demo_world =
      (\<lparr>content = [''Error executing tool cosmic_media_get: invalid arguments''],
        isError = Some True\<rparr>, demo_world)"
    by (simp add: d p1 error_message_def)
  have 2: "calls (snd (CallToolRequest_handler demo_runtime ''cosmic_media_get''
                   (JObj [(''id'', JStr ''m1''), (''extra'', JNull)]) demo_world)) =
      [Call ''media'' ''findOne'' [JObj [(''id'', JStr ''m1'')]] []]"
    unfolding d p2
    by (simp add: handleGetMedia_def handleGetMedia_try_def run_defs demo_runtime_def
        demo_world_def)
  from n 1 2 show ?thesis
    by simp
qed

section \<open>Requests of the write handlers\<close>

text \<open>
  With write access and a client, a write handler whose body reaches its operation
  records exactly that operation.
\<close>

lemma write_request:
  assumes "hasWriteAccess (env w)" and "fst (getCosmicClient w) = Inr cosmic"
  shows "calls (snd (try_catch
      (bind (requireWriteAccess w) (\<lambda>_ w.
         bind (getCosmicClient w) (\<lambda>cosmic w.
           bind (await rt cosmic request w) (\<lambda>response w'. (Inr (f response), w'))))) label))
    = calls w @ [request]"
proof -
  from assms(2) obtain w1 where "getCosmicClient w = (Inr cosmic, w1)" and "calls w1 = calls w"
    by (rule client_available)
  with assms(1) show ?thesis
    by (simp add: write_granted bind_simps issue_one)
qed

lemma read_request:
  assumes "fst (getCosmicClient w) = Inr cosmic"
  shows "calls (snd (try_catch
      (bind (getCosmicClient w) (\<lambda>cosmic w.
         bind (await rt cosmic request w) (\<lambda>response w'. (Inr (f response), w')))) label))
    = calls w @ [request]"
proof -
  from assms obtain w1 where "getCosmicClient w = (Inr cosmic, w1)" and "calls w1 = calls w"
    by (rule client_available)
  then show ?thesis
    by (simp add: bind_simps issue_one)
qed

section \<open>Sparse patches\<close>

lemma patch_of_object:
  "copy_defined params ''metadata'' (copy_defined params ''status''
     (copy_defined params ''content'' (copy_defined params ''slug''
        (copy_defined params ''title'' []))))
   = map (\<lambda>k. (k, get_prop params k))
       (filter (\<lambda>k. get_prop params k \<noteq> JUndefined)
          [''title'', ''slug'', ''content'', ''status'', ''metadata''])"
  by (simp add: copy_defined_def)

lemma patch_of_type:
  "copy_defined params ''options'' (copy_defined params ''metafields''
     (copy_defined params ''singular'' (copy_defined params ''title'' [])))
   = map (\<lambda>k. (k, get_prop params k))
       (filter (\<lambda>k. get_prop params k \<noteq> JUndefined)
          [''title'', ''singular'', ''metafields'', ''options''])"
  by (simp add: copy_defined_def)

lemma updateObject_request:
  assumes "hasWriteAccess (env w)" and "fst (getCosmicClient w) = Inr cosmic"
  shows "calls (snd (handleUpdateObject rt params w)) =
    calls w @
    [Call ''objects'' ''updateOne''
       [get_prop params ''id'',
        JObj (map (\<lambda>k. (k, get_prop params k))
               (filter (\<lambda>k. get_prop params k \<noteq> JUndefined)
                  [''title'', ''slug'', ''content'', ''status'', ''metadata'']))] []]"
  unfolding handleUpdateObject_def handleUpdateObject_try_def Let_def patch_of_object
  by (rule write_request [OF assms])

lemma updateObjectType_request:
  assumes "hasWriteAccess (env w)" and "fst (getCosmicClient w) = Inr cosmic"
  shows "calls (snd (handleUpdateObjectType rt params w)) =
    calls w @
    [Call ''objectTypes'' ''updateOne''
       [get_prop params ''slug'',
        JObj (map (\<lambda>k. (k, get_prop params k))
               (filter (\<lambda>k. get_prop params k \<noteq> JUndefined)
                  [''title'', ''singular'', ''metafields'', ''options'']))] []]"
  unfolding handleUpdateObjectType_def handleUpdateObjectType_try_def Let_def patch_of_type
  by (rule write_request [OF assms])

text \<open>
  Claim C6. With write access and a client, the update handlers issue one
  \<open>updateOne\<close> whose patch holds, in the order of the source, exactly those optional
  fields whose value in the validated parameters is not undefined, each with that
  value. A field that was omitted is not a key of the patch.
\<close>

theorem sparse_patch:
  assumes "hasWriteAccess (env w)" and "fst (getCosmicClient w) = Inr cosmic"
  shows "calls (snd (handleUpdateObject rt params w)) =
      calls w @
      [Call ''objects'' ''updateOne''
         [get_prop params ''id'',
          JObj (map (\<lambda>k. (k, get_prop params k))
                 (filter (\<lambda>k. get_prop params k \<noteq> JUndefined)
                    [''title'', ''slug'', ''content'', ''status'', ''metadata'']))] []]
    \<and> calls (snd (handleUpdateObjectType rt params w)) =
      calls w @
      [Call ''objectTypes'' ''updateOne''
         [get_prop params ''slug'',
          JObj (map (\<lambda>k. (k, get_prop params k))
                 (filter (\<lambda>k. get_prop params k \<noteq> JUndefined)
                    [''title'', ''singular'', ''metafields'', ''options'']))] []]"
  using updateObject_request [OF assms] updateObjectType_request [OF assms]
  by (rule conjI)

lemma demo_client:
  "fst (getCosmicClient demo_world) =
     Inr \<lparr>bucketSlug = ''my-bucket'', readKey = ''read-key'', writeKey = Some ''write-key''\<rparr>"
  by (simp add: getCosmicClient_def getConfig_def demo_world_def)

lemma demo_write: "hasWriteAccess (env demo_world)"
  by (simp add: hasWriteAccess_def demo_world_def)

theorem sparse_patch_witness:
  "parse demo_runtime updateObjectSchema (JObj [(''id'', JStr ''x''), (''title'', JStr ''New'')]) =
     Inr (JObj [(''id'', JStr ''x''), (''title'', JStr ''New'')])
   \<and> calls (snd (handleUpdateObject demo_runtime
        (JObj [(''id'', JStr ''x''), (''title'', JStr ''New'')]) demo_world)) =
     [Call ''objects'' ''updateOne'' [JStr ''x'', JObj [(''title'', JStr ''New'')]] []]"
proof -
  have p: "parse demo_runtime updateObjectSchema
      (JObj [(''id'', JStr ''x''), (''title'', JStr ''New'')]) =
     Inr (JObj [(''id'', JStr ''x''), (''title'', JStr ''New'')])"
    by (simp add: parse_def updateObjectSchema_def kept_def)
  have "calls (snd (handleUpdateObject demo_runtime
        (JObj [(''id'', JStr ''x''), (''title'', JStr ''New'')]) demo_world)) =
     [Call ''objects'' ''updateOne'' [JStr ''x'', JObj [(''title'', JStr ''New'')]] []]"
    using sparse_patch [OF demo_write demo_client, of demo_runtime
        "JObj [(''id'', JStr ''x''), (''title'', JStr ''New'')]", THEN conjunct1]
    by (simp add: demo_world_def)
  with p show ?thesis
    by (rule conjI)
qed

section \<open>Uploading media\<close>

lemma startsWith_iff: "startsWith s p \<longleftrightarrow> take (length p) s = p"
  by (induction s p rule: startsWith.induct) auto

text \<open>
  The matcher of the upload handler accepts exactly the strings that the regular
  expression describes, and its groups are the two parts of the only decomposition.
\<close>

lemma match_data_uri_iff:
  "match_data_uri s = Some (mime, payload) \<longleftrightarrow>
     s = js ''data:'' @ mime @ js '';base64,'' @ payload \<and> mime \<noteq> [] \<and>
     of_char CHR '';'' \<notin> set mime \<and> payload \<noteq> [] \<and> \<not> list_ex line_terminator payload"
proof
  assume m: "match_data_uri s = Some (mime, payload)"
  let ?semi = "of_char CHR '';'' :: nat"
  let ?rest = "drop 5 s"
  let ?tail = "dropWhile (\<lambda>u. u \<noteq> ?semi) ?rest"
  from m have d: "startsWith s (js ''data:'')"
    and mime: "mime = takeWhile (\<lambda>u. u \<noteq> ?semi) ?rest" "mime \<noteq> []"
    and t: "startsWith ?tail (js '';base64,'')"
    and payload: "payload = drop 8 ?tail" "payload \<noteq> []" "\<not> list_ex line_terminator payload"
    by (auto simp: match_data_uri_def Let_def split: if_splits)
  from d have "take 5 s = js ''data:''"
    by (simp add: startsWith_iff js_def eval_nat_numeral)
  then have s: "s = js ''data:'' @ ?rest"
    by (metis append_take_drop_id)
  from t have "take 8 ?tail = js '';base64,''"
    by (simp add: startsWith_iff js_def eval_nat_numeral)
  then have tail: "?tail = js '';base64,'' @ payload"
    unfolding payload(1) by (metis append_take_drop_id)
  have "?rest = mime @ ?tail"
    unfolding mime(1) by simp
  with s tail have "s = js ''data:'' @ mime @ js '';base64,'' @ payload"
    by simp
  moreover have "?semi \<notin> set mime"
    unfolding mime(1) by (auto dest: set_takeWhileD)
  ultimately show "s = js ''data:'' @ mime @ js '';base64,'' @ payload \<and> mime \<noteq> [] \<and>
      ?semi \<notin> set mime \<and> payload \<noteq> [] \<and> \<not> list_ex line_terminator payload"
    using mime(2) payload(2,3) by simp
next
  let ?semi = "of_char CHR '';'' :: nat"
  assume a: "s = js ''data:'' @ mime @ js '';base64,'' @ payload \<and> mime \<noteq> [] \<and>
      ?semi \<notin> set mime \<and> payload \<noteq> [] \<and> \<not> list_ex line_terminator payload"
  then have all: "\<forall>u\<in>set mime. u \<noteq> ?semi"
    and m: "mime \<noteq> []" and p: "payload \<noteq> []" "\<not> list_ex line_terminator payload"
    by auto
  from a have s: "s = js ''data:'' @ (mime @ js '';base64,'' @ payload)"
    by simp
  have rest: "drop 5 s = mime @ js '';base64,'' @ payload"
    unfolding s by (simp add: js_def)
  have sw: "startsWith s (js ''data:'')"
    unfolding s by (simp add: js_def)
  have b: "js '';base64,'' @ payload = ?semi # js ''base64,'' @ payload"
    by (simp add: js_def)
  have tw: "takeWhile (\<lambda>u. u \<noteq> ?semi) (drop 5 s) = mime"
    unfolding rest b using all by (simp add: takeWhile_append2)
  have dw: "dropWhile (\<lambda>u. u \<noteq> ?semi) (drop 5 s) = js '';base64,'' @ payload"
    unfolding rest using all by (simp add: dropWhile_append2 js_def)
  have sb: "startsWith (js '';base64,'' @ payload) (js '';base64,'')"
    and db: "drop 8 (js '';base64,'' @ payload) = payload"
    by (simp_all add: js_def)
  from m p show "match_data_uri s = Some (mime, payload)"
    unfolding match_data_uri_def Let_def tw dw db by (simp add: sw sb)
qed

lemma uploadMedia_request:
  assumes "hasWriteAccess (env w)" and "fst (getCosmicClient w) = Inr cosmic"
    and "mediaInput_of rt (get_prop params ''media'') = Inr (Inr mediaInput)"
  shows "calls (snd (handleUploadMedia rt params w)) =
    calls w @
    [Call ''media'' ''insertOne''
       [JObj [(''media'', mediaInput),
              (''folder'', get_prop params ''folder''),
              (''metadata'', get_prop params ''metadata''),
              (''trigger_webhook'', get_prop params ''trigger_webhook'')]] []]"
  unfolding handleUploadMedia_def handleUploadMedia_try_def assms(3) sum.case
  by (rule write_request [OF assms(1,2)])

lemma uploadMedia_rejected:
  assumes "hasWriteAccess (env w)" and "fst (getCosmicClient w) = Inr cosmic"
    and "mediaInput_of rt (get_prop params ''media'') = Inr (Inl result)"
  shows "fst (handleUploadMedia rt params w) = result
    \<and> calls (snd (handleUploadMedia rt params w)) = calls w"
proof -
  from assms(2) obtain w1 where "getCosmicClient w = (Inr cosmic, w1)" and "calls w1 = calls w"
    by (rule client_available)
  with assms(1,3) show ?thesis
    by (simp add: handleUploadMedia_def handleUploadMedia_try_def write_granted bind_simps
        try_catch_def)
qed

subsection \<open>The base64 decoder against the encoder\<close>

lemma of_char_less_256: "(of_char c :: nat) < 256"
proof -
  have "(of_char c :: nat) mod 256 = of_char c"
    by simp
  then show ?thesis
    by (metis mod_less_divisor zero_less_numeral)
qed

lemma char_of_js: "map char_of (js s) = s"
  by (simp add: js_def comp_def)

lemma js_8bit: "list_all (\<lambda>u. u < 256) (js s)"
  by (simp add: js_def list_all_iff of_char_less_256)

lemma index_of_nth:
  assumes "distinct xs" and "v < length xs"
  shows "index_of (xs ! v) xs = Some v"
  using assms
proof (induction xs arbitrary: v)
  case Nil
  then show ?case by simp
next
  case (Cons x xs)
  then show ?case
    by (cases v) auto
qed

lemma alphabet_distinct: "distinct base64_alphabet"
  by (simp add: base64_alphabet_def)

lemma alphabet_length: "length base64_alphabet = 64"
  by (simp add: base64_alphabet_def)

lemma alphabet_others:
  "CHR ''-'' \<notin> set base64_alphabet" "CHR ''_'' \<notin> set base64_alphabet"
  "CHR ''='' \<notin> set base64_alphabet"
  "\<forall>c\<in>set base64_alphabet. \<not> line_terminator (of_char c)"
  by (simp_all add: base64_alphabet_def line_terminator_def)

lemma alphabet_char:
  assumes "v < 64"
  shows "unbase64 (base64_alphabet ! v) = Some v" and "base64_alphabet ! v \<noteq> CHR ''=''"
    and "\<not> line_terminator (of_char (base64_alphabet ! v))"
proof -
  from assms have m: "base64_alphabet ! v \<in> set base64_alphabet"
    by (simp add: alphabet_length)
  with alphabet_others have "base64_alphabet ! v \<noteq> CHR ''-''" "base64_alphabet ! v \<noteq> CHR ''_''"
    by auto
  then show "unbase64 (base64_alphabet ! v) = Some v"
    using assms by (simp add: unbase64_def index_of_nth alphabet_distinct alphabet_length)
  from m alphabet_others show "base64_alphabet ! v \<noteq> CHR ''=''"
    by auto
  from m alphabet_others show "\<not> line_terminator (of_char (base64_alphabet ! v))"
    by blast
qed

lemma unbase64_pad: "unbase64 CHR ''='' = None"
  by (simp add: unbase64_def base64_alphabet_def)

lemma sextets_stop: "sextets (xs @ CHR ''='' # ys) = sextets xs"
  by (induction xs) (simp_all add: unbase64_pad split: option.splits)

lemma sextets_skip:
  assumes "unbase64 c = None" and "c \<noteq> CHR ''=''"
  shows "sextets (xs @ c # ys) = sextets (xs @ ys)"
  using assms by (induction xs) (simp_all split: option.splits)

lemma unbase64_None_iff:
  "unbase64 c = None \<longleftrightarrow> c \<notin> set base64_alphabet \<and> c \<noteq> CHR ''-'' \<and> c \<noteq> CHR ''_''"
proof -
  have "index_of x ys = None \<longleftrightarrow> x \<notin> set ys" for x :: char and ys
    by (induction ys) auto
  then show ?thesis
    by (simp add: unbase64_def)
qed

lemma sextet_bounds:
  fixes a b c :: nat
  assumes "a < 256" and "b < 256" and "c < 256"
  shows "a div 4 < 64" and "(a mod 4) * 16 + b div 16 < 64"
    and "(b mod 16) * 4 + c div 64 < 64" and "c mod 64 < 64"
    and "(a mod 4) * 16 < 64" and "(b mod 16) * 4 < 64"
  using assms by linarith+

lemma first_octet:
  fixes a b :: nat
  assumes "b < 256"
  shows "a div 4 * 4 + ((a mod 4) * 16 + b div 16) div 16 = a"
proof -
  have "b div 16 < 16"
    using assms by linarith
  then have "((a mod 4) * 16 + b div 16) div 16 = a mod 4"
    by simp
  then show ?thesis
    by simp
qed

lemma second_octet:
  fixes a b c :: nat
  assumes "b < 256" and "c < 256"
  shows "(((a mod 4) * 16 + b div 16) mod 16) * 16 + ((b mod 16) * 4 + c div 64) div 4 = b"
proof -
  have "c div 64 < 4"
    using assms by linarith
  then have 1: "((b mod 16) * 4 + c div 64) div 4 = b mod 16"
    by simp
  have "b div 16 < 16"
    using assms by linarith
  then have 2: "((a mod 4) * 16 + b div 16) mod 16 = b div 16"
    by simp
  show ?thesis
    unfolding 1 2 by simp
qed

lemma third_octet:
  fixes b c :: nat
  assumes "c < 256"
  shows "(((b mod 16) * 4 + c div 64) mod 4) * 64 + c mod 64 = c"
proof -
  have "c div 64 < 4"
    using assms by linarith
  then have "((b mod 16) * 4 + c div 64) mod 4 = c div 64"
    by simp
  then show ?thesis
    by simp
qed

lemma sextets_group:
  assumes "s1 < 64" and "s2 < 64" and "s3 < 64" and "s4 < 64"
  shows "sextets (base64_alphabet ! s1 # base64_alphabet ! s2 # base64_alphabet ! s3 #
                  base64_alphabet ! s4 # cs) = s1 # s2 # s3 # s4 # sextets cs"
    and "sextets [base64_alphabet ! s1, base64_alphabet ! s2, base64_alphabet ! s3, CHR ''='']
      = [s1, s2, s3]"
    and "sextets [base64_alphabet ! s1, base64_alphabet ! s2, CHR ''='', CHR ''=''] = [s1, s2]"
  using assms by (simp_all add: alphabet_char unbase64_pad)

lemma octets_groups:
  assumes "list_all (\<lambda>n. n < 256) ns"
  shows "octets (sextets (base64_groups ns)) = ns"
  using assms
proof (induction ns rule: base64_groups.induct)
  case (1 a b c rest)
  then have l: "a < 256" "b < 256" "c < 256" and r: "list_all (\<lambda>n. n < 256) rest"
    by simp_all
  note s = sextet_bounds [OF l]
  show ?case
    unfolding base64_groups.simps append.simps sextets_group(1) [OF s(1-4)] octets.simps
      first_octet [OF l(2)] second_octet [OF l(2,3)] third_octet [OF l(3)] "1.IH" [OF r]
    by (rule refl)
next
  case (2 a b)
  then have l: "a < 256" "b < 256" "(0::nat) < 256"
    by simp_all
  have z: "(b mod 16) * 4 + 0 div 64 = (b mod 16) * 4"
    by simp
  have s: "a div 4 < 64" "(a mod 4) * 16 + b div 16 < 64" "(b mod 16) * 4 < 64"
    using sextet_bounds [OF l] by simp_all
  have sx: "sextets (base64_groups [a, b]) =
      [a div 4, (a mod 4) * 16 + b div 16, (b mod 16) * 4]"
    unfolding base64_groups.simps by (rule sextets_group(2) [OF s s(1)])
  have o2: "(((a mod 4) * 16 + b div 16) mod 16) * 16 + ((b mod 16) * 4) div 4 = b"
    using second_octet [OF l(2,3), of a] by simp
  show ?case
    unfolding sx octets.simps first_octet [OF l(2)] o2 by (rule refl)
next
  case (3 a)
  then have l: "a < 256" "(0::nat) < 256" "(0::nat) < 256"
    by simp_all
  have s: "a div 4 < 64" "(a mod 4) * 16 < 64"
    using sextet_bounds [OF l] by simp_all
  have sx: "sextets (base64_groups [a]) = [a div 4, (a mod 4) * 16]"
    unfolding base64_groups.simps by (rule sextets_group(3) [OF s s])
  have o1: "a div 4 * 4 + ((a mod 4) * 16) div 16 = a"
    using first_octet [OF l(2), of a] by simp
  show ?case
    unfolding sx octets.simps o1 by (rule refl)
next
  case 4
  show ?case by simp
qed

lemma decode_encode: "Buffer_from_base64 (base64_encode bytes) = bytes"
proof -
  have "list_all (\<lambda>n::nat. n < 256) (map of_char bytes)"
    by (simp add: list_all_iff of_char_less_256)
  then show ?thesis
    by (simp add: Buffer_from_base64_def base64_encode_def octets_groups comp_def)
qed

lemma groups_chars:
  assumes "list_all (\<lambda>n. n < 256) ns"
  shows "list_all (\<lambda>c. \<not> line_terminator (of_char c)) (base64_groups ns)"
  using assms
proof (induction ns rule: base64_groups.induct)
  case (1 a b c rest)
  then have l: "a < 256" "b < 256" "c < 256" and r: "list_all (\<lambda>n. n < 256) rest"
    by simp_all
  show ?case
    using "1.IH" [OF r] by (simp add: alphabet_char sextet_bounds [OF l])
next
  case (2 a b)
  then have l: "a < 256" "b < 256" "(0::nat) < 256"
    by simp_all
  show ?case
    using sextet_bounds [OF l] by (simp add: alphabet_char) (simp add: line_terminator_def)
next
  case (3 a)
  then have l: "a < 256" "(0::nat) < 256" "(0::nat) < 256"
    by simp_all
  show ?case
    using sextet_bounds [OF l] by (simp add: alphabet_char) (simp add: line_terminator_def)
next
  case 4
  show ?case by simp
qed

lemma encode_no_line_terminator: "\<not> list_ex line_terminator (js (base64_encode bytes))"
proof -
  have "list_all (\<lambda>n::nat. n < 256) (map of_char bytes)"
    by (simp add: list_all_iff of_char_less_256)
  then have "list_all (\<lambda>c. \<not> line_terminator (of_char c)) (base64_encode bytes)"
    unfolding base64_encode_def by (rule groups_chars)
  then show ?thesis
    by (simp add: js_def list_all_iff list_ex_iff)
qed

lemma encode_not_empty: "bytes \<noteq> [] \<Longrightarrow> js (base64_encode bytes) \<noteq> []"
proof -
  have "ns \<noteq> [] \<Longrightarrow> base64_groups ns \<noteq> []" for ns
    by (induction ns rule: base64_groups.induct) simp_all
  then show "bytes \<noteq> [] \<Longrightarrow> js (base64_encode bytes) \<noteq> []"
    by (simp add: js_def base64_encode_def)
qed

lemma Buffer_from_encoded: "Buffer_from rt (js (base64_encode bytes)) = bytes"
  by (simp add: Buffer_from_def js_8bit char_of_js decode_encode)

text \<open>The laws of the decoder.\<close>

lemma decode_stop: "Buffer_from_base64 (xs @ CHR ''='' # ys) = Buffer_from_base64 xs"
  by (simp add: Buffer_from_base64_def sextets_stop)

lemma decode_skip:
  assumes "c \<notin> set base64_alphabet" and "c \<noteq> CHR ''-''" and "c \<noteq> CHR ''_''" and "c \<noteq> CHR ''=''"
  shows "Buffer_from_base64 (xs @ c # ys) = Buffer_from_base64 (xs @ ys)"
proof -
  from assms(1-3) have "unbase64 c = None"
    by (simp add: unbase64_None_iff)
  then have "sextets (xs @ c # ys) = sextets (xs @ ys)"
    using assms(4) by (rule sextets_skip)
  then show ?thesis
    by (simp add: Buffer_from_base64_def)
qed

lemma decode_url_safe:
  "Buffer_from_base64 (map (\<lambda>c. if c = CHR ''-'' then CHR ''+'' else if c = CHR ''_'' then CHR ''/'' else c) t) =
   Buffer_from_base64 t"
proof -
  have p: "unbase64 CHR ''+'' = Some 62" and s: "unbase64 CHR ''/'' = Some 63"
    by (simp_all add: unbase64_def base64_alphabet_def)
  have m: "unbase64 CHR ''-'' = Some 62" and u: "unbase64 CHR ''_'' = Some 63"
    by (simp_all add: unbase64_def)
  have "sextets (map (\<lambda>c. if c = CHR ''-'' then CHR ''+'' else if c = CHR ''_'' then CHR ''/'' else c) t) =
      sextets t"
    by (induction t) (simp_all add: p s m u unbase64_pad split: option.splits)
  then show ?thesis
    by (simp add: Buffer_from_base64_def)
qed

lemma Buffer_from_8bit:
  "list_all (\<lambda>u. u < 256) payload \<Longrightarrow> Buffer_from rt payload = Buffer_from_base64 (map char_of payload)"
  by (simp add: Buffer_from_def)

text \<open>
  Claim C3. With write access and a client, for every string given as \<open>media\<close>, of code
  units \<open>s\<close>: if \<open>s\<close> is \<open>data:<mime>;base64,<data>\<close> (a non-empty mime part without
  semicolon, a non-empty data part without line terminator), the one operation issued is
  the \<open>insertOne\<close> whose media are the bytes that the runtime decodes from the data part,
  and when the data part is the base64 encoding of a non-empty sequence of bytes, these
  are the bytes forwarded; if \<open>s\<close> starts with \<open>data:\<close> and is not of that form, the result
  is the invalid-format error envelope and no operation is issued; if \<open>s\<close> does not start
  with \<open>data:\<close>, the operation issued carries the string itself, unchanged. The decoder
  of a data part of 8-bit characters is \<open>Buffer_from_base64\<close>: it inverts the encoder on
  every sequence of bytes, stops at the first padding character, skips every character
  outside the two alphabets, and reads the URL-safe alphabet as the standard one.
\<close>

theorem upload_media_input:
  assumes "hasWriteAccess (env w)" and "fst (getCosmicClient w) = Inr cosmic"
    and "code_units (get_prop params ''media'') = Some s"
  shows "(s = js ''data:'' @ mime @ js '';base64,'' @ payload \<and> mime \<noteq> [] \<and>
          of_char CHR '';'' \<notin> set mime \<and> payload \<noteq> [] \<and> \<not> list_ex line_terminator payload \<longrightarrow>
            calls (snd (handleUploadMedia rt params w)) =
              calls w @
              [Call ''media'' ''insertOne''
                 [JObj [(''media'', JBuffer (Buffer_from rt payload)),
                        (''folder'', get_prop params ''folder''),
                        (''metadata'', get_prop params ''metadata''),
                        (''trigger_webhook'', get_prop params ''trigger_webhook'')]] []])
    \<and> (s = js ''data:'' @ mime @ js '';base64,'' @ js (base64_encode bytes) \<and> mime \<noteq> [] \<and>
        of_char CHR '';'' \<notin> set mime \<and> bytes \<noteq> [] \<longrightarrow>
            calls (snd (handleUploadMedia rt params w)) =
              calls w @
              [Call ''media'' ''insertOne''
                 [JObj [(''media'', JBuffer bytes),
                        (''folder'', get_prop params ''folder''),
                        (''metadata'', get_prop params ''metadata''),
                        (''trigger_webhook'', get_prop params ''trigger_webhook'')]] []])
    \<and> (list_all (\<lambda>u. u < 256) payload \<longrightarrow>
          Buffer_from rt payload = Buffer_from_base64 (map char_of payload))
    \<and> Buffer_from_base64 (base64_encode bytes) = bytes
    \<and> Buffer_from_base64 (xs @ CHR ''='' # ys) = Buffer_from_base64 xs
    \<and> (c \<notin> set base64_alphabet \<and> c \<noteq> CHR ''-'' \<and> c \<noteq> CHR ''_'' \<and> c \<noteq> CHR ''='' \<longrightarrow>
          Buffer_from_base64 (xs @ c # ys) = Buffer_from_base64 (xs @ ys))
    \<and> Buffer_from_base64
          (map (\<lambda>c. if c = CHR ''-'' then CHR ''+'' else if c = CHR ''_'' then CHR ''/'' else c) t) =
        Buffer_from_base64 t
    \<and> (startsWith s (js ''data:'') \<and>
        (\<forall>m d. \<not> (s = js ''data:'' @ m @ js '';base64,'' @ d \<and> m \<noteq> [] \<and>
                  of_char CHR '';'' \<notin> set m \<and> d \<noteq> [] \<and> \<not> list_ex line_terminator d)) \<longrightarrow>
            fst (handleUploadMedia rt params w) =
              \<lparr>content = [''Error: Invalid base64 data URI format. Expected format: data:<mimetype>;base64,<data>''],
                isError = Some True\<rparr>
            \<and> calls (snd (handleUploadMedia rt params w)) = calls w)
    \<and> (\<not> startsWith s (js ''data:'') \<longrightarrow>
            calls (snd (handleUploadMedia rt params w)) =
              calls w @
              [Call ''media'' ''insertOne''
                 [JObj [(''media'', get_prop params ''media''),
                        (''folder'', get_prop params ''folder''),
                        (''metadata'', get_prop params ''metadata''),
                        (''trigger_webhook'', get_prop params ''trigger_webhook'')]] []])"
proof -
  have forwarded: "calls (snd (handleUploadMedia rt params w)) =
        calls w @
        [Call ''media'' ''insertOne''
           [JObj [(''media'', JBuffer (Buffer_from rt d)),
                  (''folder'', get_prop params ''folder''),
                  (''metadata'', get_prop params ''metadata''),
                  (''trigger_webhook'', get_prop params ''trigger_webhook'')]] []]"
    if "s = js ''data:'' @ m @ js '';base64,'' @ d \<and> m \<noteq> [] \<and> of_char CHR '';'' \<notin> set m \<and>
        d \<noteq> [] \<and> \<not> list_ex line_terminator d" for m d
  proof -
    from that have m: "match_data_uri s = Some (m, d)"
      by (simp add: match_data_uri_iff)
    then have "startsWith s (js ''data:'')"
      by (simp add: match_data_uri_def split: if_splits)
    with m have "mediaInput_of rt (get_prop params ''media'') =
        Inr (Inr (JBuffer (Buffer_from rt d)))"
      by (simp add: assms(3) mediaInput_of_def)
    then show ?thesis
      by (rule uploadMedia_request [OF assms(1,2)])
  qed
  {
    assume "s = js ''data:'' @ mime @ js '';base64,'' @ payload \<and> mime \<noteq> [] \<and>
        of_char CHR '';'' \<notin> set mime \<and> payload \<noteq> [] \<and> \<not> list_ex line_terminator payload"
    then have "calls (snd (handleUploadMedia rt params w)) =
        calls w @
        [Call ''media'' ''insertOne''
           [JObj [(''media'', JBuffer (Buffer_from rt payload)),
                  (''folder'', get_prop params ''folder''),
                  (''metadata'', get_prop params ''metadata''),
                  (''trigger_webhook'', get_prop params ''trigger_webhook'')]] []]"
      by (rule forwarded)
  }
  note r1 = this
  {
    assume a: "s = js ''data:'' @ mime @ js '';base64,'' @ js (base64_encode bytes) \<and> mime \<noteq> [] \<and>
        of_char CHR '';'' \<notin> set mime \<and> bytes \<noteq> []"
    then have "js (base64_encode bytes) \<noteq> []"
      by (simp add: encode_not_empty)
    with a have "s = js ''data:'' @ mime @ js '';base64,'' @ js (base64_encode bytes) \<and> mime \<noteq> [] \<and>
        of_char CHR '';'' \<notin> set mime \<and> js (base64_encode bytes) \<noteq> [] \<and>
        \<not> list_ex line_terminator (js (base64_encode bytes))"
      by (simp add: encode_no_line_terminator)
    then have "calls (snd (handleUploadMedia rt params w)) =
        calls w @
        [Call ''media'' ''insertOne''
           [JObj [(''media'', JBuffer (Buffer_from rt (js (base64_encode bytes)))),
                  (''folder'', get_prop params ''folder''),
                  (''metadata'', get_prop params ''metadata''),
                  (''trigger_webhook'', get_prop params ''trigger_webhook'')]] []]"
      by (rule forwarded)
    then have "calls (snd (handleUploadMedia rt params w)) =
        calls w @
        [Call ''media'' ''insertOne''
           [JObj [(''media'', JBuffer bytes),
                  (''folder'', get_prop params ''folder''),
                  (''metadata'', get_prop params ''metadata''),
                  (''trigger_webhook'', get_prop params ''trigger_webhook'')]] []]"
      by (simp only: Buffer_from_encoded)
  }
  note r2 = this
  {
    assume a: "startsWith s (js ''data:'') \<and>
          (\<forall>m d. \<not> (s = js ''data:'' @ m @ js '';base64,'' @ d \<and> m \<noteq> [] \<and>
                    of_char CHR '';'' \<notin> set m \<and> d \<noteq> [] \<and> \<not> list_ex line_terminator d))"
    have "match_data_uri s = None"
    proof (cases "match_data_uri s")
      case (Some g)
      then have "match_data_uri s = Some (fst g, snd g)"
        by simp
      then have "s = js ''data:'' @ fst g @ js '';base64,'' @ snd g \<and> fst g \<noteq> [] \<and>
          of_char CHR '';'' \<notin> set (fst g) \<and> snd g \<noteq> [] \<and> \<not> list_ex line_terminator (snd g)"
        by (rule match_data_uri_iff [THEN iffD1])
      with a show ?thesis
        by blast
    qed simp
    with a have "mediaInput_of rt (get_prop params ''media'') =
        Inr (Inl (error_result
          ''Error: Invalid base64 data URI format. Expected format: data:<mimetype>;base64,<data>''))"
      by (simp add: assms(3) mediaInput_of_def)
    from uploadMedia_rejected [OF assms(1,2) this]
    have "fst (handleUploadMedia rt params w) =
        \<lparr>content = [''Error: Invalid base64 data URI format. Expected format: data:<mimetype>;base64,<data>''],
          isError = Some True\<rparr>
        \<and> calls (snd (handleUploadMedia rt params w)) = calls w"
      by (simp add: error_result_def)
  }
  note r3 = this
  {
    assume "\<not> startsWith s (js ''data:'')"
    then have "mediaInput_of rt (get_prop params ''media'') = Inr (Inr (get_prop params ''media''))"
      by (simp add: assms(3) mediaInput_of_def)
    then have "calls (snd (handleUploadMedia rt params w)) =
        calls w @
        [Call ''media'' ''insertOne''
           [JObj [(''media'', get_prop params ''media''),
                  (''folder'', get_prop params ''folder''),
                  (''metadata'', get_prop params ''metadata''),
                  (''trigger_webhook'', get_prop params ''trigger_webhook'')]] []]"
      by (rule uploadMedia_request [OF assms(1,2)])
  }
  note r4 = this
  note laws = Buffer_from_8bit [of payload rt] decode_encode [of bytes] decode_stop [of xs ys]
    decode_skip [of c xs ys] decode_url_safe [of t]
  from r1 r2 r3 r4 laws show ?thesis
    by blast
qed

lemma encode_foo: "base64_encode ''foo'' = ''Zm9v''"
  by code_simp

theorem upload_media_input_witness:
  "hasWriteAccess (env demo_world)
   \<and> calls (snd (handleUploadMedia demo_runtime
        (JObj [(''media'', JStr ''data:image/png;base64,Zm9v''), (''trigger_webhook'', JBool True)])
        demo_world)) =
     [Call ''media'' ''insertOne''
        [JObj [(''media'', JBuffer ''foo''), (''folder'', JUndefined), (''metadata'', JUndefined),
               (''trigger_webhook'', JBool True)]] []]
   \<and> fst (handleUploadMedia demo_runtime
        (JObj [(''media'', JWide (js ''data:image/png;base64,Zm9v'' @ [0x2028]))]) demo_world) =
     \<lparr>content = [''Error: Invalid base64 data URI format. Expected format: data:<mimetype>;base64,<data>''],
       isError = Some True\<rparr>
   \<and> calls (snd (handleUploadMedia demo_runtime
        (JObj [(''media'', JWide (js ''data:image/png;base64,Zm9v'' @ [0x2028]))]) demo_world)) = []
   \<and> calls (snd (handleUploadMedia demo_runtime
        (JObj [(''media'', JWide [0x7D20, 0x6750, 0x2E, 0x70, 0x6E, 0x67])]) demo_world)) =
     [Call ''media'' ''insertOne''
        [JObj [(''media'', JWide [0x7D20, 0x6750, 0x2E, 0x70, 0x6E, 0x67]), (''folder'', JUndefined),
               (''metadata'', JUndefined), (''trigger_webhook'', JUndefined)]] []]"
proof -
  let ?params = "JObj [(''media'', JStr ''data:image/png;base64,Zm9v''),
    (''trigger_webhook'', JBool True)]"
  have g: "code_units (get_prop ?params ''media'') = Some (js ''data:image/png;base64,Zm9v'')"
    by (simp add: js_def)
  have f: "js ''data:image/png;base64,Zm9v'' =
        js ''data:'' @ js ''image/png'' @ js '';base64,'' @ js (base64_encode ''foo'') \<and>
      js ''image/png'' \<noteq> [] \<and> of_char CHR '';'' \<notin> set (js ''image/png'') \<and> ''foo'' \<noteq> []"
    by (simp add: encode_foo js_def)
  have one: "calls (snd (handleUploadMedia demo_runtime ?params demo_world)) =
     [Call ''media'' ''insertOne''
        [JObj [(''media'', JBuffer ''foo''), (''folder'', JUndefined), (''metadata'', JUndefined),
               (''trigger_webhook'', JBool True)]] []]"
    using upload_media_input [OF demo_write demo_client g, where mime = "js ''image/png''"
        and bytes = "''foo''" and rt = demo_runtime, THEN conjunct2, THEN conjunct1, THEN mp, OF f]
    by (simp add: demo_world_def)
  let ?wide = "js ''data:image/png;base64,Zm9v'' @ [0x2028]"
  let ?bad = "JObj [(''media'', JWide ?wide)]"
  have gb: "code_units (get_prop ?bad ''media'') = Some ?wide"
    by simp
  have "match_data_uri ?wide = None"
    by (simp add: match_data_uri_def js_def line_terminator_def)
  then have "\<forall>m d. match_data_uri ?wide \<noteq> Some (m, d)"
    by simp
  then have fb: "startsWith ?wide (js ''data:'') \<and>
      (\<forall>m d. \<not> (?wide = js ''data:'' @ m @ js '';base64,'' @ d \<and> m \<noteq> [] \<and>
                of_char CHR '';'' \<notin> set m \<and> d \<noteq> [] \<and> \<not> list_ex line_terminator d))"
    unfolding match_data_uri_iff by (simp add: js_def)
  have two: "fst (handleUploadMedia demo_runtime ?bad demo_world) =
     \<lparr>content = [''Error: Invalid base64 data URI format. Expected format: data:<mimetype>;base64,<data>''],
       isError = Some True\<rparr>
     \<and> calls (snd (handleUploadMedia demo_runtime ?bad demo_world)) = []"
    using upload_media_input [OF demo_write demo_client gb, where rt = demo_runtime,
        THEN conjunct2, THEN conjunct2, THEN conjunct2, THEN conjunct2, THEN conjunct2,
        THEN conjunct2, THEN conjunct2, THEN conjunct1, THEN mp, OF fb]
    by (simp add: demo_world_def)
  let ?url = "[0x7D20, 0x6750, 0x2E, 0x70, 0x6E, 0x67] :: nat list"
  let ?remote = "JObj [(''media'', JWide ?url)]"
  have gr: "code_units (get_prop ?remote ''media'') = Some ?url"
    by simp
  have fr: "\<not> startsWith ?url (js ''data:'')"
    by (simp add: js_def)
  have three: "calls (snd (handleUploadMedia demo_runtime ?remote demo_world)) =
     [Call ''media'' ''insertOne''
        [JObj [(''media'', JWide ?url), (''folder'', JUndefined),
               (''metadata'', JUndefined), (''trigger_webhook'', JUndefined)]] []]"
    using upload_media_input [OF demo_write demo_client gr, where rt = demo_runtime,
        THEN conjunct2, THEN conjunct2, THEN conjunct2, THEN conjunct2, THEN conjunct2,
        THEN conjunct2, THEN conjunct2, THEN conjunct2, THEN mp, OF fr]
    by (simp add: demo_world_def)
  from demo_write one two three show ?thesis
    by simp
qed

section \<open>Which fields reach the backend\<close>

lemma chain_if:
  "(if b then chain (Call c m as rs) k v else Call c m as rs) =
     Call c m as (rs @ (if b then [(k, v)] else []))"
  by simp

lemma createObject_request:
  assumes "hasWriteAccess (env w)" and "fst (getCosmicClient w) = Inr cosmic"
  shows "calls (snd (handleCreateObject rt params w)) =
    calls w @
    [Call ''objects'' ''insertOne''
       [JObj (map (\<lambda>k. (k, get_prop params k))
          [''title'', ''type'', ''slug'', ''content'', ''status'', ''metadata'', ''locale''])] []]"
  unfolding handleCreateObject_def handleCreateObject_try_def list.map
  by (rule write_request [OF assms])

lemma createObjectType_request:
  assumes "hasWriteAccess (env w)" and "fst (getCosmicClient w) = Inr cosmic"
  shows "calls (snd (handleCreateObjectType rt params w)) =
    calls w @
    [Call ''objectTypes'' ''insertOne''
       [JObj (map (\<lambda>k. (k, get_prop params k))
          [''title'', ''slug'', ''singular'', ''metafields'', ''options''])] []]"
  unfolding handleCreateObjectType_def handleCreateObjectType_try_def list.map
  by (rule write_request [OF assms])

lemma generateText_request:
  assumes "fst (getCosmicClient w) = Inr cosmic"
  shows "calls (snd (handleGenerateText rt params w)) =
    calls w @
    [Call ''ai'' ''generateText''
       [JObj (map (\<lambda>k. (k, get_prop params k)) [''prompt'', ''model'', ''max_tokens''])] []]"
  unfolding handleGenerateText_def handleGenerateText_try_def list.map
  by (rule read_request [OF assms])

lemma generateImage_request:
  assumes "hasWriteAccess (env w)" and "fst (getCosmicClient w) = Inr cosmic"
  shows "calls (snd (handleGenerateImage rt params w)) =
    calls w @
    [Call ''ai'' ''generateImage''
       [JObj (map (\<lambda>k. (k, get_prop params k))
          [''prompt'', ''model'', ''folder'', ''metadata'', ''alt_text''])] []]"
  unfolding handleGenerateImage_def handleGenerateImage_try_def list.map
  by (rule write_request [OF assms])

lemma generateVideo_request:
  assumes "hasWriteAccess (env w)" and "fst (getCosmicClient w) = Inr cosmic"
  shows "calls (snd (handleGenerateVideo rt params w)) =
    calls w @
    [Call ''ai'' ''generateVideo''
       [JObj [(''prompt'', get_prop params ''prompt''),
              (''model'', get_prop params ''model''),
              (''duration'', if truthy (get_prop params ''duration'')
                             then parseInt rt (get_prop params ''duration'') else JUndefined),
              (''resolution'', get_prop params ''resolution''),
              (''folder'', get_prop params ''folder''),
              (''metadata'', get_prop params ''metadata'')]] []]"
  unfolding handleGenerateVideo_def handleGenerateVideo_try_def Let_def
  by (rule write_request [OF assms])

lemma getMedia_request:
  assumes "fst (getCosmicClient w) = Inr cosmic"
  shows "calls (snd (handleGetMedia rt params w)) =
    calls w @
    [Call ''media'' ''findOne'' [JObj [(''id'', get_prop params ''id'')]]
       (if truthy (get_prop params ''props'') then [(''props'', get_prop params ''props'')] else [])]"
  unfolding handleGetMedia_def handleGetMedia_try_def Let_def chain_if append_Nil
  by (rule read_request [OF assms])

lemma listMedia_request:
  assumes "fst (getCosmicClient w) = Inr cosmic"
  shows "calls (snd (handleListMedia rt params w)) =
    calls w @
    [Call ''media'' ''find''
       [JObj (if truthy (get_prop params ''folder'')
              then [(''folder'', get_prop params ''folder'')] else [])]
       (concat (map (\<lambda>k. if truthy (get_prop params k) then [(k, get_prop params k)] else [])
          [''props'', ''limit'', ''skip'']))]"
proof -
  have "handleListMedia rt params w =
    try_catch
      (bind (getCosmicClient w) (\<lambda>cosmic w.
         bind (await rt cosmic
           (Call ''media'' ''find''
              [JObj (if truthy (get_prop params ''folder'')
                     then [(''folder'', get_prop params ''folder'')] else [])]
              (concat (map (\<lambda>k. if truthy (get_prop params k) then [(k, get_prop params k)] else [])
                 [''props'', ''limit'', ''skip''])))
           w)
           (\<lambda>response w'. (Inr (text_result (JSON_stringify rt (JObj
               [(''media'', get_prop response ''media''),
                (''total'', get_prop response ''total'')]))), w'))))
      ''Error listing media: ''"
    by (simp add: handleListMedia_def handleListMedia_try_def Let_def chain_if
        del: chain.simps split del: if_split cong: if_cong)
  then show ?thesis
    by (simp only: read_request [OF assms])
qed

lemma listObjects_request:
  assumes "fst (getCosmicClient w) = Inr cosmic"
  shows "calls (snd (handleListObjects rt params w)) =
    calls w @
    [Call ''objects'' ''find''
       [if truthy (get_prop params ''type'')
        then (case (if truthy (get_prop params ''query'') then get_prop params ''query'' else JObj []) of
                JObj kvs \<Rightarrow> JObj (assign kvs ''type'' (get_prop params ''type''))
              | _ \<Rightarrow> (if truthy (get_prop params ''query'') then get_prop params ''query'' else JObj []))
        else (if truthy (get_prop params ''query'') then get_prop params ''query'' else JObj [])]
       (concat (map (\<lambda>k. if truthy (get_prop params k) then [(k, get_prop params k)] else [])
          [''props'', ''limit'', ''skip'', ''sort'', ''status'']) @
        (if get_prop params ''depth'' \<noteq> JUndefined
         then [(''depth'', get_prop params ''depth'')] else []))]"
proof -
  have "handleListObjects rt params w =
    try_catch
      (bind (getCosmicClient w) (\<lambda>cosmic w.
         bind (await rt cosmic
           (Call ''objects'' ''find''
       [if truthy (get_prop params ''type'')
        then (case (if truthy (get_prop params ''query'') then get_prop params ''query'' else JObj []) of
                JObj kvs \<Rightarrow> JObj (assign kvs ''type'' (get_prop params ''type''))
              | _ \<Rightarrow> (if truthy (get_prop params ''query'') then get_prop params ''query'' else JObj []))
        else (if truthy (get_prop params ''query'') then get_prop params ''query'' else JObj [])]
       (concat (map (\<lambda>k. if truthy (get_prop params k) then [(k, get_prop params k)] else [])
          [''props'', ''limit'', ''skip'', ''sort'', ''status'']) @
        (if get_prop params ''depth'' \<noteq> JUndefined
         then [(''depth'', get_prop params ''depth'')] else [])))
           w)
           (\<lambda>response w'. (Inr (text_result (JSON_stringify rt (JObj
               [(''objects'', get_prop response ''objects''),
                (''total'', get_prop response ''total'')]))), w'))))
      ''Error listing objects: ''"
    by (simp add: handleListObjects_def handleListObjects_try_def Let_def chain_if
        del: chain.simps split del: if_split cong: if_cong)
  then show ?thesis
    by (simp only: read_request [OF assms])
qed


lemma getObject_by_slug:
  assumes "\<not> truthy (get_prop params ''id'')" and "truthy (get_prop params ''slug'')"
    and "truthy (get_prop params ''type'')" and "fst (getCosmicClient w) = Inr cosmic"
  shows "calls (snd (handleGetObject rt params w)) =
    calls w @
    [Call ''objects'' ''findOne''
       [JObj [(''type'', get_prop params ''type''), (''slug'', get_prop params ''slug'')]]
       ((if truthy (get_prop params ''props'') then [(''props'', get_prop params ''props'')] else []) @
        (if truthy (get_prop params ''status'') then [(''status'', get_prop params ''status'')] else []))]"
proof -
  from assms(4) obtain w1 where "getCosmicClient w = (Inr cosmic, w1)" and "calls w1 = calls w"
    by (rule client_available)
  with assms(1-3) show ?thesis
    by (simp add: handleGetObject_def handleGetObject_try_def bind_simps issue_one Let_def)
qed

text \<open>
  Claim C7, as stated, fails for the create handlers. \<open>cosmic_objects_create\<close> called
  with a title and a type only sends an object that has all seven keys: \<open>slug\<close>,
  \<open>content\<close>, \<open>metadata\<close> and \<open>locale\<close>, which the caller omitted, are there with the
  value undefined.
\<close>

theorem create_object_fields_counterexample:
  "calls (snd (CallToolRequest_handler demo_runtime ''cosmic_objects_create''
      (JObj [(''title'', JStr ''Hello''), (''type'', JStr ''posts'')]) demo_world)) =
   [Call ''objects'' ''insertOne''
      [JObj [(''title'', JStr ''Hello''), (''type'', JStr ''posts''), (''slug'', JUndefined),
             (''content'', JUndefined), (''status'', JStr ''draft''), (''metadata'', JUndefined),
             (''locale'', JUndefined)]] []]"
proof -
  have c: "map_of switch_cases ''cosmic_objects_create'' =
      Some (Parsed createObjectSchema handleCreateObject)"
    by (simp add: switch_cases_def)
  have p: "parse demo_runtime createObjectSchema
      (JObj [(''title'', JStr ''Hello''), (''type'', JStr ''posts'')]) =
     Inr (JObj [(''title'', JStr ''Hello''), (''type'', JStr ''posts''), (''status'', JStr ''draft'')])"
    by (simp add: parse_def createObjectSchema_def kept_def)
  have d: "CallToolRequest_handler demo_runtime ''cosmic_objects_create''
      (JObj [(''title'', JStr ''Hello''), (''type'', JStr ''posts'')]) demo_world =
     handleCreateObject demo_runtime
       (JObj [(''title'', JStr ''Hello''), (''type'', JStr ''posts''), (''status'', JStr ''draft'')])
       demo_world"
    by (simp add: dispatch_parsed [OF c] p)
  show ?thesis
    unfolding d createObject_request [OF demo_write demo_client]
    by (simp add: demo_world_def)
qed

text \<open>
  Claim C7, amended. No handler sends an omitted optional parameter as an explicit null.
  With write access and a client: the create, upload and generation handlers send a
  request object that always has every one of its keys, each with the parameter's
  value, which is undefined for an omitted parameter (the video duration goes through
  \<open>parseInt\<close> when supplied); the update handlers send a patch with the supplied
  fields only; the list and get handlers put a field into the query, or chain a refiner,
  only for a parameter that is supplied (truthy; \<open>depth\<close>: not undefined).
\<close>

theorem request_fields:
  assumes "hasWriteAccess (env w)" and "fst (getCosmicClient w) = Inr cosmic"
  shows
   "calls (snd (handleCreateObject rt params w)) =
      calls w @
      [Call ''objects'' ''insertOne''
         [JObj (map (\<lambda>k. (k, get_prop params k))
            [''title'', ''type'', ''slug'', ''content'', ''status'', ''metadata'', ''locale''])] []]
    \<and> calls (snd (handleCreateObjectType rt params w)) =
      calls w @
      [Call ''objectTypes'' ''insertOne''
         [JObj (map (\<lambda>k. (k, get_prop params k))
            [''title'', ''slug'', ''singular'', ''metafields'', ''options''])] []]
    \<and> (mediaInput_of rt (get_prop params ''media'') = Inr (Inr mediaInput) \<longrightarrow>
        calls (snd (handleUploadMedia rt params w)) =
          calls w @
          [Call ''media'' ''insertOne''
             [JObj [(''media'', mediaInput),
                    (''folder'', get_prop params ''folder''),
                    (''metadata'', get_prop params ''metadata''),
                    (''trigger_webhook'', get_prop params ''trigger_webhook'')]] []])
    \<and> calls (snd (handleGenerateText rt params w)) =
      calls w @
      [Call ''ai'' ''generateText''
         [JObj (map (\<lambda>k. (k, get_prop params k)) [''prompt'', ''model'', ''max_tokens''])] []]
    \<and> calls (snd (handleGenerateImage rt params w)) =
      calls w @
      [Call ''ai'' ''generateImage''
         [JObj (map (\<lambda>k. (k, get_prop params k))
            [''prompt'', ''model'', ''folder'', ''metadata'', ''alt_text''])] []]
    \<and> calls (snd (handleGenerateVideo rt params w)) =
      calls w @
      [Call ''ai'' ''generateVideo''
         [JObj [(''prompt'', get_prop params ''prompt''),
                (''model'', get_prop params ''model''),
                (''duration'', if truthy (get_prop params ''duration'')
                               then parseInt rt (get_prop params ''duration'') else JUndefined),
                (''resolution'', get_prop params ''resolution''),
                (''folder'', get_prop params ''folder''),
                (''metadata'', get_prop params ''metadata'')]] []]
    \<and> calls (snd (handleUpdateObject rt params w)) =
      calls w @
      [Call ''objects'' ''updateOne''
         [get_prop params ''id'',
          JObj (map (\<lambda>k. (k, get_prop params k))
                 (filter (\<lambda>k. get_prop params k \<noteq> JUndefined)
                    [''title'', ''slug'', ''content'', ''status'', ''metadata'']))] []]
    \<and> calls (snd (handleUpdateObjectType rt params w)) =
      calls w @
      [Call ''objectTypes'' ''updateOne''
         [get_prop params ''slug'',
          JObj (map (\<lambda>k. (k, get_prop params k))
                 (filter (\<lambda>k. get_prop params k \<noteq> JUndefined)
                    [''title'', ''singular'', ''metafields'', ''options'']))] []]
    \<and> calls (snd (handleListObjects rt params w)) =
      calls w @
      [Call ''objects'' ''find''
         [if truthy (get_prop params ''type'')
          then (case (if truthy (get_prop params ''query'') then get_prop params ''query'' else JObj []) of
                  JObj kvs \<Rightarrow> JObj (assign kvs ''type'' (get_prop params ''type''))
                | _ \<Rightarrow> (if truthy (get_prop params ''query'') then get_prop params ''query'' else JObj []))
          else (if truthy (get_prop params ''query'') then get_prop params ''query'' else JObj [])]
         (concat (map (\<lambda>k. if truthy (get_prop params k) then [(k, get_prop params k)] else [])
            [''props'', ''limit'', ''skip'', ''sort'', ''status'']) @
          (if get_prop params ''depth'' \<noteq> JUndefined
           then [(''depth'', get_prop params ''depth'')] else []))]
    \<and> calls (snd (handleListMedia rt params w)) =
      calls w @
      [Call ''media'' ''find''
         [JObj (if truthy (get_prop params ''folder'')
                then [(''folder'', get_prop params ''folder'')] else [])]
         (concat (map (\<lambda>k. if truthy (get_prop params k) then [(k, get_prop params k)] else [])
            [''props'', ''limit'', ''skip'']))]
    \<and> calls (snd (handleGetMedia rt params w)) =
      calls w @
      [Call ''media'' ''findOne'' [JObj [(''id'', get_prop params ''id'')]]
         (if truthy (get_prop params ''props'') then [(''props'', get_prop params ''props'')] else [])]
    \<and> (truthy (get_prop params ''id'') \<and>
        (truthy (get_prop params ''slug'') \<longrightarrow> truthy (get_prop params ''type'')) \<longrightarrow>
        calls (snd (handleGetObject rt params w)) =
          calls w @
          [Call ''objects'' ''findOne'' [JObj [(''id'', get_prop params ''id'')]]
             ((if truthy (get_prop params ''props'')
               then [(''props'', get_prop params ''props'')] else []) @
              (if truthy (get_prop params ''status'')
               then [(''status'', get_prop params ''status'')] else []))])
    \<and> (\<not> truthy (get_prop params ''id'') \<and> truthy (get_prop params ''slug'') \<and>
        truthy (get_prop params ''type'') \<longrightarrow>
        calls (snd (handleGetObject rt params w)) =
          calls w @
          [Call ''objects'' ''findOne''
             [JObj [(''type'', get_prop params ''type''), (''slug'', get_prop params ''slug'')]]
             ((if truthy (get_prop params ''props'')
               then [(''props'', get_prop params ''props'')] else []) @
              (if truthy (get_prop params ''status'')
               then [(''status'', get_prop params ''status'')] else []))])"
proof -
  note c = assms(2)
  have upload: "mediaInput_of rt (get_prop params ''media'') = Inr (Inr mediaInput) \<longrightarrow>
        calls (snd (handleUploadMedia rt params w)) =
          calls w @
          [Call ''media'' ''insertOne''
             [JObj [(''media'', mediaInput),
                    (''folder'', get_prop params ''folder''),
                    (''metadata'', get_prop params ''metadata''),
                    (''trigger_webhook'', get_prop params ''trigger_webhook'')]] []]"
    using uploadMedia_request [OF assms] by blast
  have by_id: "truthy (get_prop params ''id'') \<and>
        (truthy (get_prop params ''slug'') \<longrightarrow> truthy (get_prop params ''type'')) \<longrightarrow>
        calls (snd (handleGetObject rt params w)) =
          calls w @
          [Call ''objects'' ''findOne'' [JObj [(''id'', get_prop params ''id'')]]
             ((if truthy (get_prop params ''props'')
               then [(''props'', get_prop params ''props'')] else []) @
              (if truthy (get_prop params ''status'')
               then [(''status'', get_prop params ''status'')] else []))]"
    using getObject_by_id [of params w cosmic rt] c by blast
  have by_slug: "\<not> truthy (get_prop params ''id'') \<and> truthy (get_prop params ''slug'') \<and>
        truthy (get_prop params ''type'') \<longrightarrow>
        calls (snd (handleGetObject rt params w)) =
          calls w @
          [Call ''objects'' ''findOne''
             [JObj [(''type'', get_prop params ''type''), (''slug'', get_prop params ''slug'')]]
             ((if truthy (get_prop params ''props'')
               then [(''props'', get_prop params ''props'')] else []) @
              (if truthy (get_prop params ''status'')
               then [(''status'', get_prop params ''status'')] else []))]"
    using getObject_by_slug [of params w cosmic rt] c by blast
  show ?thesis
    by (intro conjI createObject_request [OF assms] createObjectType_request [OF assms] upload
        generateText_request [OF c] generateImage_request [OF assms]
        generateVideo_request [OF assms] updateObject_request [OF assms]
        updateObjectType_request [OF assms] listObjects_request [OF c] listMedia_request [OF c]
        getMedia_request [OF c] by_id by_slug)
qed

theorem request_fields_witness:
  "hasWriteAccess (env demo_world)
   \<and> calls (snd (handleCreateObjectType demo_runtime
        (JObj [(''title'', JStr ''Posts''), (''slug'', JStr ''posts'')]) demo_world)) =
     [Call ''objectTypes'' ''insertOne''
        [JObj [(''title'', JStr ''Posts''), (''slug'', JStr ''posts''), (''singular'', JUndefined),
               (''metafields'', JUndefined), (''options'', JUndefined)]] []]
   \<and> calls (snd (handleListMedia demo_runtime
        (JObj [(''limit'', JNum 10), (''skip'', JNum 0)]) demo_world)) =
     [Call ''media'' ''find'' [JObj []] [(''limit'', JNum 10)]]"
proof -
  note t = request_fields [OF demo_write demo_client, of demo_runtime]
  have 1: "calls (snd (handleCreateObjectType demo_runtime
        (JObj [(''title'', JStr ''Posts''), (''slug'', JStr ''posts'')]) demo_world)) =
     [Call ''objectTypes'' ''insertOne''
        [JObj [(''title'', JStr ''Posts''), (''slug'', JStr ''posts''), (''singular'', JUndefined),
               (''metafields'', JUndefined), (''options'', JUndefined)]] []]"
    using t [of "JObj [(''title'', JStr ''Posts''), (''slug'', JStr ''posts'')]",
        THEN conjunct2, THEN conjunct1]
    by (simp add: demo_world_def)
  have 2: "calls (snd (handleListMedia demo_runtime
        (JObj [(''limit'', JNum 10), (''skip'', JNum 0)]) demo_world)) =
     [Call ''media'' ''find'' [JObj []] [(''limit'', JNum 10)]]"
    using t [of "JObj [(''limit'', JNum 10), (''skip'', JNum 0)]",
        THEN conjunct2, THEN conjunct2, THEN conjunct2, THEN conjunct2, THEN conjunct2,
        THEN conjunct2, THEN conjunct2, THEN conjunct2, THEN conjunct2, THEN conjunct1]
    by (simp add: demo_world_def)
  from demo_write 1 2 show ?thesis
    by (intro conjI)
qed

end
